theory Spec2Isabelle
  imports Complex_Main "HOL-Library.Multiset" "HOL-Library.Char_ord" "HOL-Library.List_Lexorder"
begin

section \<open>Green Guardian: region index, aggregation, fusion and trigger rules\<close>

text \<open>
  A shallow embedding of the Python sources \<^verbatim>\<open>onemap_client.py\<close>, \<^verbatim>\<open>aggregator.py\<close>,
  \<^verbatim>\<open>context_enricher.py\<close>, \<^verbatim>\<open>data_fusion.py\<close> and \<^verbatim>\<open>trigger_rules_enhanced.py\<close>.

  Conventions.
  \<^item> A finite Python float is the \<^typ>\<open>real\<close> it denotes; the floating-point operations
    that are not exact are parameters (see below). A cell of a pandas column that may
    hold NaN, \<^verbatim>\<open>pd.NA\<close> or \<^verbatim>\<open>None\<close> is an \<^typ>\<open>'a option\<close> with \<^term>\<open>None\<close> for the
    missing value. A comparison with a missing value is false, as it is for NaN.
  \<^item> A pandas DataFrame is the list of its rows, in index order. The column-less frame
    \<^verbatim>\<open>pd.DataFrame()\<close> is kept apart where the code reads a column by name.
  \<^item> The string constants of the code that form a closed set (priorities, density
    types, data sources) are datatypes whose constructors carry the code's spelling.
  \<^item> Network access, the geometry library and NumPy's sort are parameters: the
    provider's response, the containment test and \<^verbatim>\<open>argsort\<close> are arguments of the
    functions that use them.
\<close>

subsection \<open>Data model\<close>

datatype py_error = KeyError | RequestException

text \<open>\<^verbatim>\<open>'Commercial'\<close>, \<^verbatim>\<open>'Residential'\<close>, \<^verbatim>\<open>'Mixed'\<close>, \<^verbatim>\<open>'Unknown/Low Density'\<close>.\<close>

datatype density = Commercial | Residential | Mixed | Unknown_Low_Density

text \<open>\<^verbatim>\<open>'CRITICAL'\<close>, \<^verbatim>\<open>'HIGH'\<close>, \<^verbatim>\<open>'MEDIUM'\<close>, \<^verbatim>\<open>'LOW'\<close>, \<^verbatim>\<open>'NORMAL'\<close> and \<^verbatim>\<open>'N/A'\<close>
  (the priority of a planning area that is not found).\<close>

datatype priority = CRITICAL | HIGH | MEDIUM | LOW | NORMAL | NA

text \<open>\<^verbatim>\<open>'temperature'\<close> and \<^verbatim>\<open>'context_inference'\<close>.\<close>

datatype data_source = temperature | context_inference

text \<open>The message templates of the \<^verbatim>\<open>reason\<close> strings; the formatted numbers are left out.\<close>

datatype reason =
    Not_found string
  | Critical_extreme_heat
  | High_low_green
  | High_critical_temperature
  | Medium_commercial
  | Medium_residential
  | Normal_conditions
  | Inferred_adequate
  | Inferred_commercial
  | Inferred_very_low_green
  | Inferred_residential

text \<open>One row of the unified dataset (\<^verbatim>\<open>data_fusion.py\<close>).\<close>

record fused_row =
  planning_area :: string
  avg_temperature :: "real option"
  green_ratio :: "real option"
  density_type :: "density option"

text \<open>The unified dataset: \<^verbatim>\<open>pd.DataFrame()\<close> without columns, or a frame with the four
  columns and the given rows.\<close>

datatype dataset = EmptyFrame | Rows "fused_row list"

fun rows_of :: "dataset \<Rightarrow> fused_row list" where
  "rows_of EmptyFrame = []"
| "rows_of (Rows rs) = rs"

text \<open>The \<^verbatim>\<open>details\<close> dictionary of a result; \<^term>\<open>None\<close> is the empty dictionary. Only
  the temperature rules set the key \<^verbatim>\<open>all_triggers\<close>.\<close>

record details =
  d_planning_area :: string
  d_avg_temperature :: "real option"
  d_green_ratio :: "real option"
  d_density_type :: "density option"
  d_all_triggers :: "reason list option"
  d_data_source :: data_source

record finding =
  trigger :: bool
  reason :: reason
  priority :: priority
  details :: "details option"

subsection \<open>Trigger rules (\<^verbatim>\<open>trigger_rules_enhanced.py\<close>)\<close>

definition TEMP_HIGH :: real where "TEMP_HIGH = 29.5"
definition TEMP_CRITICAL :: real where "TEMP_CRITICAL = 30.5"
definition GREEN_LOW :: real where "GREEN_LOW = 0.2"
definition GREEN_CRITICAL :: real where "GREEN_CRITICAL = 0.1"

text \<open>\<^verbatim>\<open>green < c\<close> on a cell that may be NaN.\<close>

fun below :: "real option \<Rightarrow> real \<Rightarrow> bool" where
  "below None c = False"
| "below (Some g) c = (g < c)"

definition evaluate_with_temperature ::
  "string \<Rightarrow> real \<Rightarrow> real option \<Rightarrow> density option \<Rightarrow> finding" where
  "evaluate_with_temperature area temp green dens =
     (let triggers_priority =
        (if temp \<ge> TEMP_CRITICAL \<and> below green GREEN_CRITICAL \<and> dens = Some Commercial
           then ([Critical_extreme_heat], CRITICAL)
         else if temp \<ge> TEMP_HIGH \<and> below green GREEN_LOW
           then ([High_low_green], HIGH)
         else if temp \<ge> TEMP_CRITICAL
           then ([High_critical_temperature], HIGH)
         else if temp \<ge> TEMP_HIGH \<and> dens = Some Commercial \<and> below green GREEN_CRITICAL
           then ([Medium_commercial], MEDIUM)
         else if temp \<ge> TEMP_HIGH \<and> dens = Some Residential \<and> below green GREEN_LOW
           then ([Medium_residential], MEDIUM)
         else ([], NORMAL));
        triggers = fst triggers_priority
      in \<lparr> trigger = (length triggers > 0),
           reason = (case triggers of t # _ \<Rightarrow> t | [] \<Rightarrow> Normal_conditions),
           priority = snd triggers_priority,
           details = Some \<lparr> d_planning_area = area, d_avg_temperature = Some temp,
                            d_green_ratio = green, d_density_type = dens,
                            d_all_triggers = Some triggers,
                            d_data_source = temperature \<rparr> \<rparr>)"

definition infer_from_context :: "string \<Rightarrow> real option \<Rightarrow> density option \<Rightarrow> finding" where
  "infer_from_context area green dens =
     (let prt =
        (if dens = Some Commercial \<and> below green GREEN_CRITICAL
           then (MEDIUM, Inferred_commercial, True)
         else if below green GREEN_CRITICAL
           then (MEDIUM, Inferred_very_low_green, True)
         else if dens = Some Residential \<and> below green GREEN_LOW
           then (LOW, Inferred_residential, True)
         else (NORMAL, Inferred_adequate, False))
      in \<lparr> trigger = snd (snd prt),
           reason = fst (snd prt),
           priority = fst prt,
           details = Some \<lparr> d_planning_area = area, d_avg_temperature = None,
                            d_green_ratio = green, d_density_type = dens,
                            d_all_triggers = None,
                            d_data_source = context_inference \<rparr> \<rparr>)"

definition not_found :: "string \<Rightarrow> finding" where
  "not_found area =
     \<lparr> trigger = False, reason = Not_found area, priority = NA, details = None \<rparr>"

text \<open>
  \<^verbatim>\<open>evaluate_area\<close>. The selection \<^verbatim>\<open>self.df[self.df['planning_area'] == planning_area]\<close>
  reads the column \<^verbatim>\<open>planning_area\<close>, which \<^verbatim>\<open>pd.DataFrame()\<close> does not have: there the
  lookup raises \<^verbatim>\<open>KeyError\<close>. Otherwise the first selected row (\<^verbatim>\<open>iloc[0]\<close>) is evaluated.
\<close>

definition evaluate_area :: "dataset \<Rightarrow> string \<Rightarrow> py_error + finding" where
  "evaluate_area df area =
     (case df of
        EmptyFrame \<Rightarrow> Inl KeyError
      | Rows rs \<Rightarrow>
          (case filter (\<lambda>r. planning_area r = area) rs of
             [] \<Rightarrow> Inr (not_found area)
           | row # _ \<Rightarrow>
               (case avg_temperature row of
                  Some temp \<Rightarrow>
                    Inr (evaluate_with_temperature area temp (green_ratio row) (density_type row))
                | None \<Rightarrow>
                    Inr (infer_from_context area (green_ratio row) (density_type row)))))"

text \<open>The loop of \<^verbatim>\<open>evaluate_all\<close> over the rows' names; an exception ends it.\<close>

fun evaluate_each :: "dataset \<Rightarrow> string list \<Rightarrow> py_error + finding list" where
  "evaluate_each df [] = Inr []"
| "evaluate_each df (a # as) =
     (case evaluate_area df a of
        Inl e \<Rightarrow> Inl e
      | Inr r \<Rightarrow> (case evaluate_each df as of Inl e \<Rightarrow> Inl e | Inr rs \<Rightarrow> Inr (r # rs)))"

text \<open>\<^verbatim>\<open>priority_order.get(x['priority'], 5)\<close>.\<close>

fun priority_order :: "priority \<Rightarrow> nat" where
  "priority_order CRITICAL = 0"
| "priority_order HIGH = 1"
| "priority_order MEDIUM = 2"
| "priority_order LOW = 3"
| "priority_order NORMAL = 4"
| "priority_order NA = 5"

text \<open>\<^verbatim>\<open>evaluate_all\<close>: \<^verbatim>\<open>list.sort\<close> is stable, as \<^const>\<open>sort_key\<close> is.\<close>

definition evaluate_all :: "dataset \<Rightarrow> py_error + finding list" where
  "evaluate_all df =
     (case evaluate_each df (map planning_area (rows_of df)) of
        Inl e \<Rightarrow> Inl e
      | Inr results \<Rightarrow> Inr (sort_key (\<lambda>x. priority_order (priority x)) results))"

text \<open>One row of the frame that \<^verbatim>\<open>get_triggered_areas\<close> builds.\<close>

record triggered_row =
  t_planning_area :: string
  t_priority :: priority
  t_temperature :: "real option"
  t_green_ratio :: "real option"
  t_density_type :: "density option"
  t_data_source :: data_source
  t_reason :: reason

text \<open>\<^verbatim>\<open>r['details']['planning_area']\<close> raises \<^verbatim>\<open>KeyError\<close> on the empty dictionary.\<close>

fun triggered_rows :: "finding list \<Rightarrow> py_error + triggered_row list" where
  "triggered_rows [] = Inr []"
| "triggered_rows (r # rs) =
     (case details r of
        None \<Rightarrow> Inl KeyError
      | Some d \<Rightarrow>
          (case triggered_rows rs of
             Inl e \<Rightarrow> Inl e
           | Inr ts \<Rightarrow>
               Inr (\<lparr> t_planning_area = d_planning_area d, t_priority = priority r,
                      t_temperature = d_avg_temperature d, t_green_ratio = d_green_ratio d,
                      t_density_type = d_density_type d, t_data_source = d_data_source d,
                      t_reason = reason r \<rparr> # ts)))"

definition get_triggered_areas :: "dataset \<Rightarrow> py_error + triggered_row list" where
  "get_triggered_areas df =
     (case evaluate_all df of
        Inl e \<Rightarrow> Inl e
      | Inr results \<Rightarrow> triggered_rows (filter trigger results))"

subsection \<open>The decision list of the specification\<close>

text \<open>
  The specification gives the evaluation as an ordered list of rules, the first rule
  whose condition holds deciding the outcome. This is that reading, written
  independently of the code's conditional chain: a rule is a condition on the row with
  an outcome (priority and trigger flag).
\<close>

fun first_match :: "(('a \<Rightarrow> bool) \<times> 'b) list \<Rightarrow> 'b \<Rightarrow> 'a \<Rightarrow> 'b" where
  "first_match [] dflt x = dflt"
| "first_match ((c, out) # rules) dflt x = (if c x then out else first_match rules dflt x)"

definition temp_at_least :: "real \<Rightarrow> fused_row \<Rightarrow> bool" where
  "temp_at_least c r = (case avg_temperature r of None \<Rightarrow> False | Some t \<Rightarrow> c \<le> t)"

definition green_below :: "real \<Rightarrow> fused_row \<Rightarrow> bool" where
  "green_below c r = (case green_ratio r of None \<Rightarrow> False | Some g \<Rightarrow> g < c)"

definition density_is :: "density \<Rightarrow> fused_row \<Rightarrow> bool" where
  "density_is d r = (density_type r = Some d)"

definition measurement_rules :: "((fused_row \<Rightarrow> bool) \<times> priority \<times> bool) list" where
  "measurement_rules =
     [(\<lambda>r. temp_at_least 30.5 r \<and> green_below 0.1 r \<and> density_is Commercial r, (CRITICAL, True)),
      (\<lambda>r. temp_at_least 29.5 r \<and> green_below 0.2 r, (HIGH, True)),
      (\<lambda>r. temp_at_least 30.5 r, (HIGH, True)),
      (\<lambda>r. temp_at_least 29.5 r \<and> density_is Commercial r \<and> green_below 0.1 r, (MEDIUM, True)),
      (\<lambda>r. temp_at_least 29.5 r \<and> density_is Residential r \<and> green_below 0.2 r, (MEDIUM, True))]"

definition inference_rules :: "((fused_row \<Rightarrow> bool) \<times> priority \<times> bool) list" where
  "inference_rules =
     [(\<lambda>r. density_is Commercial r \<and> green_below 0.1 r, (MEDIUM, True)),
      (\<lambda>r. green_below 0.1 r, (MEDIUM, True)),
      (\<lambda>r. density_is Residential r \<and> green_below 0.2 r, (LOW, True))]"

definition spec_evaluate :: "fused_row \<Rightarrow> priority \<times> bool" where
  "spec_evaluate r =
     (case avg_temperature r of
        Some t \<Rightarrow> first_match measurement_rules (NORMAL, False) r
      | None \<Rightarrow> first_match inference_rules (NORMAL, False) r)"

subsection \<open>Region index (\<^verbatim>\<open>onemap_client.py\<close>)\<close>

text \<open>
  A cached planning area: its name and its geometry, of a type \<^typ>\<open>'g\<close> left open. The
  containment test of the geometry library is a parameter
  \<open>contains :: 'g \<Rightarrow> real \<times> real \<Rightarrow> bool\<close>, applied to the point \<^verbatim>\<open>Point(lon, lat)\<close>.
\<close>

record 'g area =
  name :: string
  geometry :: 'g

text \<open>An item of the provider's answer: \<^verbatim>\<open>pln_area_n\<close> may be missing, and \<^term>\<open>None\<close> as
  \<open>geojson\<close> stands for a value that \<^verbatim>\<open>json.loads\<close> or \<^verbatim>\<open>shape\<close> rejects.\<close>

record 'g item =
  pln_area_n :: "string option"
  geojson :: "'g option"

record 'g client =
  planning_areas :: "'g area list"

text \<open>The loop over the items: an item that fails to parse is skipped.\<close>

fun parse_areas :: "'g item list \<Rightarrow> 'g area list" where
  "parse_areas [] = []"
| "parse_areas (it # its) =
     (case geojson it of
        None \<Rightarrow> parse_areas its
      | Some polygon \<Rightarrow>
          \<lparr> name = (case pln_area_n it of None \<Rightarrow> ''UNKNOWN'' | Some n \<Rightarrow> n),
            geometry = polygon \<rparr> # parse_areas its)"

text \<open>
  \<^verbatim>\<open>load_planning_areas\<close>. The argument \<open>response\<close> is what the request yields: the list of
  items, or the \<^verbatim>\<open>RequestException\<close> that the method logs and raises again.
\<close>

definition load_planning_areas ::
  "py_error + 'g item list \<Rightarrow> 'g client \<Rightarrow> py_error + 'g client" where
  "load_planning_areas response c =
     (if planning_areas c \<noteq> [] then Inr c
      else (case response of
              Inl e \<Rightarrow> Inl e
            | Inr data \<Rightarrow> Inr (c\<lparr>planning_areas := parse_areas data\<rparr>)))"

fun first_containing ::
  "('g \<Rightarrow> real \<times> real \<Rightarrow> bool) \<Rightarrow> real \<times> real \<Rightarrow> 'g area list \<Rightarrow> string option" where
  "first_containing contains point [] = None"
| "first_containing contains point (a # as) =
     (if contains (geometry a) point then Some (name a)
      else first_containing contains point as)"

text \<open>\<^verbatim>\<open>get_planning_area\<close>: the name found (or \<^verbatim>\<open>None\<close>) and the client afterwards.\<close>

definition get_planning_area ::
  "('g \<Rightarrow> real \<times> real \<Rightarrow> bool) \<Rightarrow> py_error + 'g item list \<Rightarrow> 'g client \<Rightarrow> real \<Rightarrow> real
     \<Rightarrow> py_error + (string option \<times> 'g client)" where
  "get_planning_area contains response c lat lon =
     (case (if planning_areas c = [] then load_planning_areas response c else Inr c) of
        Inl e \<Rightarrow> Inl e
      | Inr c' \<Rightarrow> Inr (first_containing contains (lon, lat) (planning_areas c'), c'))"

subsection \<open>Sorting a frame by a column\<close>

text \<open>
  \<^verbatim>\<open>df.sort_values(by=col, ascending=False, na_position='last')\<close> with the default
  \<^verbatim>\<open>kind='quicksort'\<close>. pandas computes the new order of the rows from the key column
  (\<^verbatim>\<open>nargsort\<close>): it takes the keys that are present, reverses them, lets NumPy's
  \<^verbatim>\<open>argsort\<close> order them ascending, reverses the answer, and appends the positions of
  the missing keys in their original order.

  NumPy's \<^verbatim>\<open>argsort\<close> is a parameter \<open>argsort :: real list \<Rightarrow> nat list\<close>. What it promises
  is \<open>argsort_ok\<close>: the positions of the list, each once, with ascending keys. The
  default kind is not a stable sort (only \<^verbatim>\<open>'mergesort'\<close> and \<^verbatim>\<open>'stable'\<close> are), so the
  order in which it leaves equal keys is not determined by the program; it depends on
  the number of keys and on the NumPy build.
\<close>

definition argsort_ok :: "(real list \<Rightarrow> nat list) \<Rightarrow> bool" where
  "argsort_ok argsort \<longleftrightarrow>
     (\<forall>ks. mset (argsort ks) = mset [0..<length ks] \<and> sorted (map (\<lambda>i. ks ! i) (argsort ks)))"

text \<open>Two sorts that keep this promise: a stable one, and one that leaves equal keys in
  the reverse of their order (for the keys 31, 31, 30, 30 it answers 3, 2, 1, 0).\<close>

definition stable_argsort :: "real list \<Rightarrow> nat list" where
  "stable_argsort ks = sort_key (\<lambda>i. ks ! i) [0..<length ks]"

definition reversing_argsort :: "real list \<Rightarrow> nat list" where
  "reversing_argsort ks = rev (sort_key (\<lambda>i. - (ks ! i)) [0..<length ks])"

text \<open>The positions of the keys that are present, reversed (\<^verbatim>\<open>non_nan_idx[::-1]\<close>).\<close>

definition non_nan_idx :: "real option list \<Rightarrow> nat list" where
  "non_nan_idx items = rev (filter (\<lambda>i. items ! i \<noteq> None) [0..<length items])"

text \<open>\<^verbatim>\<open>nargsort\<close> for \<^verbatim>\<open>ascending=False\<close> and \<^verbatim>\<open>na_position='last'\<close>. The positions that
  \<open>argsort\<close> answers are positions of the list it was given.\<close>

definition nargsort :: "(real list \<Rightarrow> nat list) \<Rightarrow> real option list \<Rightarrow> nat list" where
  "nargsort argsort items =
     (let non_nans = List.map_filter (\<lambda>i. items ! i) (non_nan_idx items);
          nan_idx = filter (\<lambda>i. items ! i = None) [0..<length items];
          indexer = rev (map (\<lambda>j. non_nan_idx items ! j) (argsort non_nans))
      in indexer @ nan_idx)"

definition sort_values :: "(real list \<Rightarrow> nat list) \<Rightarrow> ('r \<Rightarrow> real option) \<Rightarrow> 'r list \<Rightarrow> 'r list" where
  "sort_values argsort key rows = map (\<lambda>i. rows ! i) (nargsort argsort (map key rows))"

text \<open>
  The frames that \<^verbatim>\<open>sort_values\<close> may return, whatever \<open>argsort\<close> does with equal keys:
  the same rows, in descending order of the keys with the missing keys last, the rows
  with a missing key in their original order.
\<close>

fun key_ge :: "real option \<Rightarrow> real option \<Rightarrow> bool" where
  "key_ge a None = True"
| "key_ge None (Some y) = False"
| "key_ge (Some x) (Some y) = (y \<le> x)"

definition sort_values_desc :: "('r \<Rightarrow> real option) \<Rightarrow> 'r list \<Rightarrow> 'r list \<Rightarrow> bool" where
  "sort_values_desc key rows out \<longleftrightarrow>
     mset out = mset rows \<and>
     sorted_wrt (\<lambda>a b. key_ge (key a) (key b)) out \<and>
     filter (\<lambda>r. key r = None) out = filter (\<lambda>r. key r = None) rows"

subsection \<open>Floating point\<close>

text \<open>
  A finite double is the real number it denotes; comparisons and maxima of doubles are
  exact. Division, the mean of a column and \<^verbatim>\<open>round\<close> are not the operations of the
  reals: the code's \<^verbatim>\<open>(23 / 40).round(2)\<close> is 0.57, and its mean of 32.3 and 32.4, rounded
  to one decimal, is 32.3. These three operations of NumPy are parameters.
\<close>

record float_ops =
  fdiv :: "real \<Rightarrow> real \<Rightarrow> real"
  fmean :: "real list \<Rightarrow> real"
  fround :: "nat \<Rightarrow> real \<Rightarrow> real"

text \<open>
  Division of NumPy arrays does not raise: a zero divisor gives \<^verbatim>\<open>inf\<close> or NaN, which is
  \<^term>\<open>None\<close> here, and rounding leaves such a value as it is.
\<close>

definition divide :: "float_ops \<Rightarrow> real \<Rightarrow> real \<Rightarrow> real option" where
  "divide fl a b = (if b = 0 then None else Some (fdiv fl a b))"


text \<open>The operations of the reals, with rounding half to even; they agree with the
  doubles on the inputs of the examples below.\<close>

definition rint :: "real \<Rightarrow> int" where
  "rint x =
     (let f = \<lfloor>x\<rfloor>; d = x - of_int f
      in if d < 1/2 then f else if d > 1/2 then f + 1 else if even f then f else f + 1)"

definition round_decimals :: "nat \<Rightarrow> real \<Rightarrow> real" where
  "round_decimals n x = of_int (rint (x * 10 ^ n)) / 10 ^ n"

definition exact_ops :: float_ops where
  "exact_ops = \<lparr> fdiv = (\<lambda>a b. a / b),
                 fmean = (\<lambda>xs. sum_list xs / real (length xs)),
                 fround = round_decimals \<rparr>"

subsection \<open>Temperature aggregation (\<^verbatim>\<open>aggregator.py\<close>)\<close>

text \<open>A weather point as \<^verbatim>\<open>DataGovClient.get_island_wide_weather\<close> builds it: the value is
  present, the station's name may be \<^verbatim>\<open>None\<close>.\<close>

record point =
  p_lat :: real
  p_lng :: real
  p_value :: real
  p_name :: "string option"



record stat_row =
  s_planning_area :: string
  avg_temp :: real
  max_temp :: real
  station_count :: nat
  stations :: "string option list"






subsection \<open>Context features (\<^verbatim>\<open>context_enricher.py\<close>)\<close>

text \<open>A row of the context frame. The green ratio is a float cell: \<^term>\<open>None\<close> would be a
  value that is not a finite number.\<close>

record context_row =
  c_planning_area :: string
  c_green_ratio :: "real option"
  c_density_type :: density
  green_count :: nat
  comm_count :: nat
  res_count :: nat

definition determine_density :: "nat \<Rightarrow> nat \<Rightarrow> density" where
  "determine_density c r =
     (let total = c + r
      in if total = 0 then Unknown_Low_Density
         else let comm_ratio = real c / real total
              in if comm_ratio > 0.6 then Commercial
                 else if comm_ratio < 0.4 then Residential
                 else Mixed)"

text \<open>\<^verbatim>\<open>df['planning_area'].map(counts).fillna(0)\<close> at one area.\<close>

definition count_of :: "(string \<rightharpoonup> nat) \<Rightarrow> string \<Rightarrow> nat" where
  "count_of counts a = (case counts a of None \<Rightarrow> 0 | Some n \<Rightarrow> n)"

text \<open>\<^verbatim>\<open>df['green_count'].max()\<close>: missing (NaN) for a frame without rows.\<close>

fun column_max :: "nat list \<Rightarrow> nat option" where
  "column_max [] = None"
| "column_max (x # xs) = Some (fold max xs x)"

text \<open>
  \<^verbatim>\<open>get_context_features\<close>, from the names of the cached planning areas and the three
  dictionaries that \<^verbatim>\<open>_fetch_and_map\<close> returns for the green, commercial and
  residential themes. The green ratio is \<^verbatim>\<open>(df['green_count'] / max_green).round(2)\<close>
  when \<^verbatim>\<open>max_green > 0\<close>, and 0 otherwise.
\<close>

definition get_context_features ::
  "float_ops \<Rightarrow> string list \<Rightarrow> (string \<rightharpoonup> nat) \<Rightarrow> (string \<rightharpoonup> nat) \<Rightarrow> (string \<rightharpoonup> nat)
     \<Rightarrow> context_row list" where
  "get_context_features fl all_areas green_counts comm_counts res_counts =
     (let max_green = column_max (map (count_of green_counts) all_areas)
      in map (\<lambda>a.
           \<lparr> c_planning_area = a,
             c_green_ratio =
               (case max_green of
                  None \<Rightarrow> Some 0
                | Some m \<Rightarrow>
                    if m > 0
                    then map_option (fround fl 2)
                           (divide fl (real (count_of green_counts a)) (real m))
                    else Some 0),
             c_density_type = determine_density (count_of comm_counts a) (count_of res_counts a),
             green_count = count_of green_counts a,
             comm_count = count_of comm_counts a,
             res_count = count_of res_counts a \<rparr>) all_areas)"

subsection \<open>Data fusion (\<^verbatim>\<open>data_fusion.py\<close>)\<close>

text \<open>
  \<^verbatim>\<open>pd.merge(temp_df, context_df, on='planning_area', how='outer')\<close>. The rows of one key:
  a key of one frame only gets missing values in the other frame's columns, a key of
  both frames gets one row for each pair of rows.
\<close>

definition merge_rows :: "string \<Rightarrow> stat_row list \<Rightarrow> context_row list \<Rightarrow> fused_row list" where
  "merge_rows k ls rs =
     (if rs = [] then
        map (\<lambda>l. \<lparr> planning_area = k, avg_temperature = Some (avg_temp l),
                   green_ratio = None, density_type = None \<rparr>) ls
      else if ls = [] then
        map (\<lambda>r. \<lparr> planning_area = k, avg_temperature = None,
                   green_ratio = c_green_ratio r,
                   density_type = Some (c_density_type r) \<rparr>) rs
      else
        concat (map (\<lambda>l. map (\<lambda>r. \<lparr> planning_area = k, avg_temperature = Some (avg_temp l),
                                     green_ratio = c_green_ratio r,
                                     density_type = Some (c_density_type r) \<rparr>) rs) ls))"

text \<open>An outer merge has the union of the keys, sorted lexicographically.\<close>

definition merge_outer :: "stat_row list \<Rightarrow> context_row list \<Rightarrow> fused_row list" where
  "merge_outer temp_df context_df =
     concat (map (\<lambda>k. merge_rows k (filter (\<lambda>l. s_planning_area l = k) temp_df)
                                    (filter (\<lambda>r. c_planning_area r = k) context_df))
                 (sort (remdups (map s_planning_area temp_df @ map c_planning_area context_df))))"

text \<open>The frame before it is sorted: without temperature data, the context frame with
  a column of \<^verbatim>\<open>pd.NA\<close>.\<close>

definition unified_df :: "stat_row list \<Rightarrow> context_row list \<Rightarrow> fused_row list" where
  "unified_df temp_df context_df =
     (if temp_df = [] then
        map (\<lambda>r. \<lparr> planning_area = c_planning_area r, avg_temperature = None,
                   green_ratio = c_green_ratio r,
                   density_type = Some (c_density_type r) \<rparr>) context_df
      else merge_outer temp_df context_df)"

text \<open>
  \<^verbatim>\<open>get_unified_dataset\<close>, from the two frames it fetches (the aggregated temperatures
  and the context features). Without context data it returns \<^verbatim>\<open>pd.DataFrame()\<close>,
  whatever the temperatures are. First as the function of NumPy's \<open>argsort\<close>:
\<close>

definition get_unified_dataset_by ::
  "(real list \<Rightarrow> nat list) \<Rightarrow> stat_row list \<Rightarrow> context_row list \<Rightarrow> dataset" where
  "get_unified_dataset_by argsort temp_df context_df =
     (if context_df = [] then EmptyFrame
      else Rows (sort_values argsort avg_temperature (unified_df temp_df context_df)))"

text \<open>and then as the relation to every dataset that it may return, whatever \<open>argsort\<close>
  does with equal keys:\<close>

definition get_unified_dataset :: "stat_row list \<Rightarrow> context_row list \<Rightarrow> dataset \<Rightarrow> bool" where
  "get_unified_dataset temp_df context_df out \<longleftrightarrow>
     (if context_df = [] then out = EmptyFrame
      else (case out of
              EmptyFrame \<Rightarrow> False
            | Rows rs \<Rightarrow> sort_values_desc avg_temperature (unified_df temp_df context_df) rs))"

text \<open>
  The row that a full outer join on the area's name has for the name \<open>k\<close>: the
  temperature of the temperature frame's row for \<open>k\<close>, and the green ratio and
  density type of the context frame's row for \<open>k\<close>, each missing when that frame
  has no such row. It is used to state what \<^const>\<open>merge_outer\<close> computes.
\<close>

definition joined_row :: "stat_row list \<Rightarrow> context_row list \<Rightarrow> string \<Rightarrow> fused_row" where
  "joined_row temp_df context_df k =
     \<lparr> planning_area = k,
       avg_temperature = map_option avg_temp (find (\<lambda>l. s_planning_area l = k) temp_df),
       green_ratio = Option.bind (find (\<lambda>r. c_planning_area r = k) context_df) c_green_ratio,
       density_type = map_option c_density_type (find (\<lambda>r. c_planning_area r = k) context_df) \<rparr>"

section \<open>Properties of the trigger rules\<close>

lemma evaluate_with_temperature_spec:
  "avg_temperature r = Some t \<Longrightarrow>
   (priority (evaluate_with_temperature a t (green_ratio r) (density_type r)),
    trigger (evaluate_with_temperature a t (green_ratio r) (density_type r))) = spec_evaluate r"
  by (cases "green_ratio r")
     (simp_all add: evaluate_with_temperature_def spec_evaluate_def measurement_rules_def
        temp_at_least_def green_below_def density_is_def
        TEMP_HIGH_def TEMP_CRITICAL_def GREEN_LOW_def GREEN_CRITICAL_def Let_def)

lemma infer_from_context_spec:
  "avg_temperature r = None \<Longrightarrow>
   (priority (infer_from_context a (green_ratio r) (density_type r)),
    trigger (infer_from_context a (green_ratio r) (density_type r))) = spec_evaluate r"
  by (cases "green_ratio r")
     (simp_all add: infer_from_context_def spec_evaluate_def inference_rules_def
        green_below_def density_is_def GREEN_LOW_def GREEN_CRITICAL_def Let_def)

lemma evaluate_area_first_row:
  assumes "filter (\<lambda>r. planning_area r = a) rs = row # rest"
  shows "evaluate_area (Rows rs) a =
           Inr (case avg_temperature row of
                  Some temp \<Rightarrow> evaluate_with_temperature a temp (green_ratio row) (density_type row)
                | None \<Rightarrow> infer_from_context a (green_ratio row) (density_type row))"
  using assms by (simp add: evaluate_area_def split: option.splits)

lemma evaluate_area_absent:
  assumes "a \<notin> planning_area ` set rs"
  shows "evaluate_area (Rows rs) a = Inr (not_found a)"
proof -
  have "filter (\<lambda>r. planning_area r = a) rs = []"
    using assms by (auto simp: filter_empty_conv)
  then show ?thesis by (simp add: evaluate_area_def)
qed

lemma source_with_temperature:
  "\<exists>z. details (evaluate_with_temperature a t g d) = Some z \<and> d_data_source z = temperature"
  by (simp add: evaluate_with_temperature_def Let_def)

lemma source_infer:
  "\<exists>z. details (infer_from_context a g d) = Some z \<and> d_data_source z = context_inference"
  by (simp add: infer_from_context_def Let_def)

text \<open>
  Claim C1. When the planning area has a row in the dataset, \<^const>\<open>evaluate_area\<close> returns
  the outcome of the specification's decision list on that row (the first row with
  the area's name, which is its only row when names are unique): the measurement
  rules in their order when the temperature is present, with data source
  \<^const>\<open>temperature\<close>, and the inference rules in their order when it is missing, with
  data source \<^const>\<open>context_inference\<close>; the first rule that matches decides, and without
  a match the outcome is \<^const>\<open>NORMAL\<close>, not triggered.
\<close>

theorem evaluate_area_decision_list:
  assumes "filter (\<lambda>r. planning_area r = a) rs = row # rest"
  shows "\<exists>f. evaluate_area (Rows rs) a = Inr f \<and>
             (priority f, trigger f) = spec_evaluate row \<and>
             map_option d_data_source (details f) =
               Some (if avg_temperature row = None then context_inference else temperature)"
proof (cases "avg_temperature row")
  case None
  with assms show ?thesis
    using infer_from_context_spec [OF None, of a]
    by (simp add: evaluate_area_first_row source_infer)
next
  case (Some t)
  with assms show ?thesis
    using evaluate_with_temperature_spec [OF Some, of a]
    by (simp add: evaluate_area_first_row source_with_temperature)
qed

theorem evaluate_area_decision_list_witness:
  "(\<exists>f. evaluate_area
          (Rows [\<lparr>planning_area = ''ORCHARD'', avg_temperature = Some 31, green_ratio = Some 0.05,
                   density_type = Some Commercial\<rparr>,
                 \<lparr>planning_area = ''BEDOK'', avg_temperature = None, green_ratio = Some 0.05,
                   density_type = Some Residential\<rparr>]) ''ORCHARD'' = Inr f \<and>
        (priority f, trigger f) = (CRITICAL, True) \<and>
        map_option d_data_source (details f) = Some temperature) \<and>
   (\<exists>f. evaluate_area
          (Rows [\<lparr>planning_area = ''ORCHARD'', avg_temperature = Some 31, green_ratio = Some 0.05,
                   density_type = Some Commercial\<rparr>,
                 \<lparr>planning_area = ''BEDOK'', avg_temperature = None, green_ratio = Some 0.05,
                   density_type = Some Residential\<rparr>]) ''BEDOK'' = Inr f \<and>
        (priority f, trigger f) = (MEDIUM, True) \<and>
        map_option d_data_source (details f) = Some context_inference)"
proof -
  let ?o = "\<lparr>planning_area = ''ORCHARD'', avg_temperature = Some 31, green_ratio = Some 0.05,
             density_type = Some Commercial\<rparr>"
  let ?b = "\<lparr>planning_area = ''BEDOK'', avg_temperature = None, green_ratio = Some 0.05,
             density_type = Some Residential\<rparr>"
  have ho: "filter (\<lambda>r. planning_area r = ''ORCHARD'') [?o, ?b] = ?o # []" by simp
  have hb: "filter (\<lambda>r. planning_area r = ''BEDOK'') [?o, ?b] = ?b # []" by simp
  have so: "spec_evaluate ?o = (CRITICAL, True)"
    by (simp add: spec_evaluate_def measurement_rules_def temp_at_least_def green_below_def
          density_is_def)
  have sb: "spec_evaluate ?b = (MEDIUM, True)"
    by (simp add: spec_evaluate_def inference_rules_def green_below_def density_is_def)
  show ?thesis
    using evaluate_area_decision_list [OF ho] evaluate_area_decision_list [OF hb]
    unfolding so sb by simp
qed

text \<open>
  Claim C2. A planning area that is not in the dataset should give the not-found
  result without a failure. On \<^verbatim>\<open>pd.DataFrame()\<close>, which \<^verbatim>\<open>get_unified_dataset\<close> returns
  when there is no context data, no name is in the dataset, and the lookup raises
  \<^verbatim>\<open>KeyError\<close> before the not-found branch is reached.
\<close>

theorem evaluate_area_empty_frame:
  "get_unified_dataset temp_df [] EmptyFrame \<and> evaluate_area EmptyFrame a = Inl KeyError"
  by (simp add: get_unified_dataset_def evaluate_area_def)

text \<open>On a dataset that has its columns, the not-found branch is taken as described.\<close>

lemma evaluate_area_not_found:
  assumes "a \<notin> planning_area ` set rs"
  shows "\<exists>f. evaluate_area (Rows rs) a = Inr f \<and> priority f = NA \<and> \<not> trigger f"
  using evaluate_area_absent [OF assms] by (simp add: not_found_def)

lemma trigger_with_temperature:
  "trigger (evaluate_with_temperature a t g d) \<longleftrightarrow>
   priority (evaluate_with_temperature a t g d) \<in> {CRITICAL, HIGH, MEDIUM, LOW}"
  by (simp add: evaluate_with_temperature_def Let_def)

lemma trigger_infer:
  "trigger (infer_from_context a g d) \<longleftrightarrow>
   priority (infer_from_context a g d) \<in> {CRITICAL, HIGH, MEDIUM, LOW}"
  by (simp add: infer_from_context_def Let_def)

lemma evaluate_area_cases:
  assumes "evaluate_area df a = Inr f"
  shows "f = not_found a \<or> (\<exists>t g d. f = evaluate_with_temperature a t g d)
         \<or> (\<exists>g d. f = infer_from_context a g d)"
  using assms
  by (auto simp: evaluate_area_def split: dataset.splits list.splits option.splits)

lemma evaluate_area_trigger:
  assumes "evaluate_area df a = Inr f"
  shows "(trigger f \<longleftrightarrow> priority f \<in> {CRITICAL, HIGH, MEDIUM, LOW}) \<and>
         (trigger f \<longrightarrow> details f \<noteq> None)"
  using evaluate_area_cases [OF assms] trigger_with_temperature trigger_infer
  by (auto simp: not_found_def evaluate_with_temperature_def infer_from_context_def Let_def)

lemma evaluate_area_rows_returns: "\<exists>f. evaluate_area (Rows rs) a = Inr f"
  by (simp add: evaluate_area_def split: list.splits option.splits)

lemma evaluate_each_rows:
  "\<exists>fs. evaluate_each (Rows rs) as = Inr fs \<and>
        (\<forall>f\<in>set fs. \<exists>a. evaluate_area (Rows rs) a = Inr f)"
proof (induction as)
  case Nil
  show ?case by simp
next
  case (Cons a as)
  obtain f where f: "evaluate_area (Rows rs) a = Inr f"
    using evaluate_area_rows_returns by blast
  from Cons obtain fs where fs: "evaluate_each (Rows rs) as = Inr fs"
    "\<forall>f\<in>set fs. \<exists>a. evaluate_area (Rows rs) a = Inr f" by blast
  show ?case using f fs by auto
qed

text \<open>\<^verbatim>\<open>evaluate_all\<close> never fails: on \<^verbatim>\<open>pd.DataFrame()\<close> the loop has no row to look up.\<close>

lemma evaluate_all_returns:
  "\<exists>fs. evaluate_all df = Inr fs \<and> (\<forall>f\<in>set fs. \<exists>a. evaluate_area df a = Inr f)"
proof (cases df)
  case EmptyFrame
  then show ?thesis by (simp add: evaluate_all_def)
next
  case (Rows rs)
  obtain fs where "evaluate_each (Rows rs) (map planning_area rs) = Inr fs"
    "\<forall>f\<in>set fs. \<exists>a. evaluate_area (Rows rs) a = Inr f"
    using evaluate_each_rows by blast
  with Rows show ?thesis by (simp add: evaluate_all_def)
qed

lemma triggered_rows_returns:
  "\<forall>f\<in>set fs. details f \<noteq> None \<Longrightarrow>
   \<exists>ts. triggered_rows fs = Inr ts \<and> map t_priority ts = map priority fs"
  by (induction fs) auto

text \<open>
  Claim C10. Every result that \<^const>\<open>evaluate_area\<close> returns, from the temperature rules,
  the inference rules or the not-found branch, is triggered exactly when its priority
  is one of \<^const>\<open>CRITICAL\<close>, \<^const>\<open>HIGH\<close>, \<^const>\<open>MEDIUM\<close>, \<^const>\<open>LOW\<close>; so \<^const>\<open>get_triggered_areas\<close>
  returns (it never fails on the missing details of a not-found result) and none of
  its rows has the priority \<^const>\<open>NORMAL\<close> or the not-found priority.
\<close>

theorem trigger_iff_priority:
  "(\<forall>f. evaluate_area df a = Inr f \<longrightarrow>
        (trigger f \<longleftrightarrow> priority f \<in> {CRITICAL, HIGH, MEDIUM, LOW})) \<and>
   (\<exists>ts. get_triggered_areas df = Inr ts \<and>
         (\<forall>t\<in>set ts. t_priority t \<noteq> NORMAL \<and> t_priority t \<noteq> NA))"
proof
  show "\<forall>f. evaluate_area df a = Inr f \<longrightarrow>
        (trigger f \<longleftrightarrow> priority f \<in> {CRITICAL, HIGH, MEDIUM, LOW})"
    using evaluate_area_trigger by blast
next
  obtain fs where fs: "evaluate_all df = Inr fs"
    "\<forall>f\<in>set fs. \<exists>a. evaluate_area df a = Inr f"
    using evaluate_all_returns by blast
  let ?tr = "filter trigger fs"
  have props: "\<forall>f\<in>set ?tr. details f \<noteq> None \<and> priority f \<in> {CRITICAL, HIGH, MEDIUM, LOW}"
    using fs(2) evaluate_area_trigger by fastforce
  then obtain ts where ts: "triggered_rows ?tr = Inr ts" "map t_priority ts = map priority ?tr"
    using triggered_rows_returns [of ?tr] by blast
  have "\<forall>p\<in>set (map t_priority ts). p \<noteq> NORMAL \<and> p \<noteq> NA"
    unfolding ts(2) using props by auto
  then have "\<forall>t\<in>set ts. t_priority t \<noteq> NORMAL \<and> t_priority t \<noteq> NA" by simp
  with fs(1) ts(1) show "\<exists>ts. get_triggered_areas df = Inr ts \<and>
         (\<forall>t\<in>set ts. t_priority t \<noteq> NORMAL \<and> t_priority t \<noteq> NA)"
    by (simp add: get_triggered_areas_def)
qed

theorem trigger_iff_priority_witness:
  "evaluate_area
     (Rows [\<lparr>planning_area = ''ORCHARD'', avg_temperature = Some 31, green_ratio = Some 0.05,
              density_type = Some Commercial\<rparr>,
            \<lparr>planning_area = ''TENGAH'', avg_temperature = None, green_ratio = Some 0.5,
              density_type = Some Unknown_Low_Density\<rparr>]) ''TENGAH''
     = Inr \<lparr>trigger = False, reason = Inferred_adequate, priority = NORMAL,
            details = Some \<lparr>d_planning_area = ''TENGAH'', d_avg_temperature = None,
                            d_green_ratio = Some 0.5,
                            d_density_type = Some Unknown_Low_Density,
                            d_all_triggers = None,
                            d_data_source = context_inference\<rparr>\<rparr> \<and>
   (\<exists>ts. get_triggered_areas
           (Rows [\<lparr>planning_area = ''ORCHARD'', avg_temperature = Some 31,
                    green_ratio = Some 0.05, density_type = Some Commercial\<rparr>,
                  \<lparr>planning_area = ''TENGAH'', avg_temperature = None, green_ratio = Some 0.5,
                    density_type = Some Unknown_Low_Density\<rparr>]) = Inr ts \<and>
         (\<forall>t\<in>set ts. t_priority t \<noteq> NORMAL \<and> t_priority t \<noteq> NA))"
proof -
  let ?df = "Rows [\<lparr>planning_area = ''ORCHARD'', avg_temperature = Some 31,
                    green_ratio = Some 0.05, density_type = Some Commercial\<rparr>,
                  \<lparr>planning_area = ''TENGAH'', avg_temperature = None, green_ratio = Some 0.5,
                    density_type = Some Unknown_Low_Density\<rparr>]"
  have e: "evaluate_area ?df ''TENGAH''
     = Inr \<lparr>trigger = False, reason = Inferred_adequate, priority = NORMAL,
            details = Some \<lparr>d_planning_area = ''TENGAH'', d_avg_temperature = None,
                            d_green_ratio = Some 0.5,
                            d_density_type = Some Unknown_Low_Density,
                            d_all_triggers = None,
                            d_data_source = context_inference\<rparr>\<rparr>"
    by (simp add: evaluate_area_def infer_from_context_def GREEN_LOW_def GREEN_CRITICAL_def)
  show ?thesis
    using trigger_iff_priority [of ?df "''TENGAH''"] e by blast
qed


section \<open>Properties of the region index\<close>

lemma load_planning_areas_cached:
  "planning_areas c \<noteq> [] \<Longrightarrow> load_planning_areas response c = Inr c"
  by (simp add: load_planning_areas_def)

lemma load_planning_areas_changes:
  assumes "load_planning_areas response c = Inr c'" "c' \<noteq> c"
  shows "planning_areas c = []"
  using assms by (auto simp: load_planning_areas_def split: if_splits)

lemma load_planning_areas_cleared:
  "load_planning_areas (Inr data) (c\<lparr>planning_areas := []\<rparr>)
     = Inr (c\<lparr>planning_areas := parse_areas data\<rparr>)"
  by (simp add: load_planning_areas_def)

text \<open>
  Claim C9. \<^const>\<open>load_planning_areas\<close> fills the cache once: while a non-empty list of
  areas is cached, a call returns at once and leaves the client as it is, whatever
  the provider would answer (also a failure); so a second call after a load that
  cached something changes nothing. A call changes the client only when the cache is
  empty, and after the cache has been emptied a call stores what it parses from the
  provider's answer.
\<close>

theorem load_planning_areas_idempotent:
  "(planning_areas c \<noteq> [] \<longrightarrow> load_planning_areas response c = Inr c) \<and>
   (\<forall>c1. load_planning_areas response c = Inr c1 \<and> planning_areas c1 \<noteq> []
      \<longrightarrow> load_planning_areas response' c1 = Inr c1) \<and>
   (\<forall>c1. load_planning_areas response c = Inr c1 \<and> c1 \<noteq> c \<longrightarrow> planning_areas c = []) \<and>
   load_planning_areas (Inr data) (c\<lparr>planning_areas := []\<rparr>)
     = Inr (c\<lparr>planning_areas := parse_areas data\<rparr>)"
proof (intro conjI allI impI)
  show "planning_areas c \<noteq> [] \<Longrightarrow> load_planning_areas response c = Inr c"
    by (rule load_planning_areas_cached)
next
  fix c1
  assume "load_planning_areas response c = Inr c1 \<and> planning_areas c1 \<noteq> []"
  then show "load_planning_areas response' c1 = Inr c1"
    by (simp add: load_planning_areas_cached)
next
  fix c1
  assume "load_planning_areas response c = Inr c1 \<and> c1 \<noteq> c"
  then show "planning_areas c = []"
    using load_planning_areas_changes by blast
next
  show "load_planning_areas (Inr data) (c\<lparr>planning_areas := []\<rparr>)
     = Inr (c\<lparr>planning_areas := parse_areas data\<rparr>)"
    by (rule load_planning_areas_cleared)
qed


theorem load_planning_areas_idempotent_witness:
  "load_planning_areas (Inr [\<lparr>pln_area_n = Some ''BEDOK'', geojson = Some (1::nat)\<rparr>])
      \<lparr>planning_areas = []\<rparr>
     = Inr \<lparr>planning_areas = [\<lparr>name = ''BEDOK'', geometry = 1\<rparr>]\<rparr> \<and>
   load_planning_areas (Inr [\<lparr>pln_area_n = Some ''TAMPINES'', geojson = Some (2::nat)\<rparr>])
      \<lparr>planning_areas = [\<lparr>name = ''BEDOK'', geometry = 1\<rparr>]\<rparr>
     = Inr \<lparr>planning_areas = [\<lparr>name = ''BEDOK'', geometry = 1\<rparr>]\<rparr> \<and>
   load_planning_areas (Inl RequestException)
      \<lparr>planning_areas = [\<lparr>name = ''BEDOK'', geometry = (1::nat)\<rparr>]\<rparr>
     = Inr \<lparr>planning_areas = [\<lparr>name = ''BEDOK'', geometry = 1\<rparr>]\<rparr>"
proof -
  let ?c0 = "\<lparr>planning_areas = ([] :: nat area list)\<rparr>"
  let ?c1 = "\<lparr>planning_areas = [\<lparr>name = ''BEDOK'', geometry = (1::nat)\<rparr>]\<rparr>"
  let ?r1 = "Inr [\<lparr>pln_area_n = Some ''BEDOK'', geojson = Some (1::nat)\<rparr>] :: py_error + nat item list"
  let ?r2 = "Inr [\<lparr>pln_area_n = Some ''TAMPINES'', geojson = Some (2::nat)\<rparr>] :: py_error + nat item list"
  have first: "load_planning_areas ?r1 ?c0 = Inr ?c1"
    by (simp add: load_planning_areas_def)
  have ne: "planning_areas ?c1 \<noteq> []" by simp
  have second: "load_planning_areas ?r2 ?c1 = Inr ?c1"
    using load_planning_areas_idempotent [of ?c0 ?r1 ?r2 "[]"] first ne by blast
  have third: "load_planning_areas (Inl RequestException) ?c1 = Inr ?c1"
    using load_planning_areas_idempotent [of ?c1 "Inl RequestException" ?r2 "[]"] ne by blast
  from first second third show ?thesis by blast
qed

lemma first_containing_None:
  "first_containing contains pt as = None \<longleftrightarrow> (\<forall>a\<in>set as. \<not> contains (geometry a) pt)"
  by (induction as) auto

lemma first_containing_Some:
  "first_containing contains pt as = Some n \<longleftrightarrow>
     (\<exists>i<length as. name (as ! i) = n \<and> contains (geometry (as ! i)) pt \<and>
        (\<forall>j<i. \<not> contains (geometry (as ! j)) pt))"
proof (induction as)
  case Nil
  show ?case by simp
next
  case (Cons a as)
  show ?case
  proof (cases "contains (geometry a) pt")
    case True
    have "(\<exists>i<length (a # as). name ((a # as) ! i) = n \<and> contains (geometry ((a # as) ! i)) pt \<and>
        (\<forall>j<i. \<not> contains (geometry ((a # as) ! j)) pt)) \<longleftrightarrow> name a = n" (is "?L \<longleftrightarrow> _")
    proof
      assume ?L
      then obtain i where i: "i < length (a # as)" "name ((a # as) ! i) = n"
        "\<forall>j<i. \<not> contains (geometry ((a # as) ! j)) pt" by blast
      have "i = 0"
      proof (rule ccontr)
        assume "i \<noteq> 0"
        then have "0 < i" by simp
        with i(3) have "\<not> contains (geometry ((a # as) ! 0)) pt" by blast
        with True show False by simp
      qed
      with i(2) show "name a = n" by simp
    next
      assume "name a = n"
      with True show ?L by (intro exI [of _ 0]) simp
    qed
    with True show ?thesis by simp
  next
    case False
    have "(\<exists>i<length (a # as). name ((a # as) ! i) = n \<and> contains (geometry ((a # as) ! i)) pt \<and>
        (\<forall>j<i. \<not> contains (geometry ((a # as) ! j)) pt)) \<longleftrightarrow>
        (\<exists>i<length as. name (as ! i) = n \<and> contains (geometry (as ! i)) pt \<and>
        (\<forall>j<i. \<not> contains (geometry (as ! j)) pt))" (is "?L \<longleftrightarrow> ?R")
    proof
      assume ?L
      then obtain i where i: "i < length (a # as)" "name ((a # as) ! i) = n"
        "contains (geometry ((a # as) ! i)) pt"
        "\<forall>j<i. \<not> contains (geometry ((a # as) ! j)) pt" by blast
      from i(3) False have "i \<noteq> 0" by (cases i) auto
      then obtain k where k: "i = Suc k" by (cases i) auto
      have "\<forall>j<k. \<not> contains (geometry (as ! j)) pt"
      proof (intro allI impI)
        fix j assume "j < k"
        then have "Suc j < i" using k by simp
        with i(4) have "\<not> contains (geometry ((a # as) ! Suc j)) pt" by blast
        then show "\<not> contains (geometry (as ! j)) pt" by simp
      qed
      with i k show ?R by (intro exI [of _ k]) simp
    next
      assume ?R
      then obtain k where k: "k < length as" "name (as ! k) = n" "contains (geometry (as ! k)) pt"
        "\<forall>j<k. \<not> contains (geometry (as ! j)) pt" by blast
      have "\<forall>j<Suc k. \<not> contains (geometry ((a # as) ! j)) pt"
      proof (intro allI impI)
        fix j assume "j < Suc k"
        then show "\<not> contains (geometry ((a # as) ! j)) pt"
          using False k(4) by (cases j) auto
      qed
      with k show ?L by (intro exI [of _ "Suc k"]) simp
    qed
    with False Cons.IH show ?thesis by simp
  qed
qed

text \<open>
  Claim C6, as the code has it. With a non-empty list of cached planning areas,
  \<^const>\<open>get_planning_area\<close> returns without failure and leaves the cache as it is, so
  repeated calls give the same answer. The answer is the name of the first area in
  cache order (the order of loading) whose geometry contains the point: no earlier
  area contains it, so of two overlapping areas the one loaded first wins. It is
  \<^verbatim>\<open>None\<close> exactly when no cached area contains the point. (With an empty cache the
  method loads the areas first; see below.)
\<close>

theorem get_planning_area_first_match:
  assumes "planning_areas c \<noteq> []"
  shows "\<exists>res. get_planning_area contains response c lat lon = Inr (res, c) \<and>
           (case res of
              None \<Rightarrow> \<forall>a\<in>set (planning_areas c). \<not> contains (geometry a) (lon, lat)
            | Some n \<Rightarrow>
                \<exists>i<length (planning_areas c).
                   name (planning_areas c ! i) = n \<and>
                   contains (geometry (planning_areas c ! i)) (lon, lat) \<and>
                   (\<forall>j<i. \<not> contains (geometry (planning_areas c ! j)) (lon, lat)))"
proof -
  let ?res = "first_containing contains (lon, lat) (planning_areas c)"
  have ret: "get_planning_area contains response c lat lon = Inr (?res, c)"
    using assms by (simp add: get_planning_area_def)
  have "case ?res of
              None \<Rightarrow> \<forall>a\<in>set (planning_areas c). \<not> contains (geometry a) (lon, lat)
            | Some n \<Rightarrow>
                \<exists>i<length (planning_areas c).
                   name (planning_areas c ! i) = n \<and>
                   contains (geometry (planning_areas c ! i)) (lon, lat) \<and>
                   (\<forall>j<i. \<not> contains (geometry (planning_areas c ! j)) (lon, lat))"
  proof (cases ?res)
    case None
    then show ?thesis using first_containing_None [of contains "(lon, lat)" "planning_areas c"]
      by simp
  next
    case (Some n)
    then show ?thesis using first_containing_Some [of contains "(lon, lat)" "planning_areas c" n]
      by simp
  qed
  with ret show ?thesis by blast
qed

text \<open>With nothing cached the method loads first: a failure of the provider is the
  failure of the call, and otherwise the answer is found in the areas just loaded.\<close>

lemma get_planning_area_empty_cache:
  "planning_areas c = [] \<Longrightarrow>
   get_planning_area contains (Inl e) c lat lon = Inl e \<and>
   get_planning_area contains (Inr data) c lat lon =
     Inr (first_containing contains (lon, lat) (parse_areas data),
          c\<lparr>planning_areas := parse_areas data\<rparr>)"
  by (simp add: get_planning_area_def load_planning_areas_def)

text \<open>
  Against claim C6 as stated: the cache is empty, so no cached area contains the
  point, and the call does not return \<^verbatim>\<open>None\<close> but fails with the provider's error.
\<close>

theorem get_planning_area_empty_cache_counterexample:
  "get_planning_area (\<lambda>g p. fst g \<le> fst p \<and> fst p \<le> snd g) (Inl RequestException)
      \<lparr>planning_areas = ([] :: (real \<times> real) area list)\<rparr> 0 1.5
     = Inl RequestException"
  by (simp add: get_planning_area_def load_planning_areas_def)

theorem get_planning_area_first_match_witness:
  "get_planning_area (\<lambda>g p. fst g \<le> fst p \<and> fst p \<le> snd g) (Inl RequestException)
      \<lparr>planning_areas = [\<lparr>name = ''A'', geometry = (0::real, 2::real)\<rparr>,
                          \<lparr>name = ''B'', geometry = (1, 3)\<rparr>]\<rparr> 0 1.5
     = Inr (Some ''A'',
            \<lparr>planning_areas = [\<lparr>name = ''A'', geometry = (0, 2)\<rparr>,
                                \<lparr>name = ''B'', geometry = (1, 3)\<rparr>]\<rparr>) \<and>
   get_planning_area (\<lambda>g p. fst g \<le> fst p \<and> fst p \<le> snd g) (Inl RequestException)
      \<lparr>planning_areas = [\<lparr>name = ''A'', geometry = (0::real, 2::real)\<rparr>,
                          \<lparr>name = ''B'', geometry = (1, 3)\<rparr>]\<rparr> 0 5
     = Inr (None,
            \<lparr>planning_areas = [\<lparr>name = ''A'', geometry = (0, 2)\<rparr>,
                                \<lparr>name = ''B'', geometry = (1, 3)\<rparr>]\<rparr>)"
proof -
  let ?c = "\<lparr>planning_areas = [\<lparr>name = ''A'', geometry = (0::real, 2::real)\<rparr>,
                               \<lparr>name = ''B'', geometry = (1, 3)\<rparr>]\<rparr>"
  let ?contains = "\<lambda>(g :: real \<times> real) (p :: real \<times> real). fst g \<le> fst p \<and> fst p \<le> snd g"
  have ne: "planning_areas ?c \<noteq> []" by simp
  show ?thesis
    using get_planning_area_first_match [OF ne, of ?contains "Inl RequestException" 0 "1.5"]
      get_planning_area_first_match [OF ne, of ?contains "Inl RequestException" 0 5]
    by (simp add: get_planning_area_def)
qed




section \<open>Properties of sorting and of the data fusion\<close>

lemma sort_values_desc_mset: "sort_values_desc key rows out \<Longrightarrow> mset out = mset rows"
  by (simp add: sort_values_desc_def)

lemma sort_values_desc_set: "sort_values_desc key rows out \<Longrightarrow> set out = set rows"
  using sort_values_desc_mset [of key rows out] mset_eq_setD by blast

lemma sort_values_desc_distinct:
  assumes "sort_values_desc key rows out" "distinct (map f rows)"
  shows "distinct (map f out)"
proof -
  have "mset (map f out) = mset (map f rows)"
    using sort_values_desc_mset [OF assms(1)] by simp
  then show ?thesis using assms(2) mset_eq_imp_distinct_iff by blast
qed

lemma sort_values_desc_nth:
  assumes "sort_values_desc key rows out" "i < j" "j < length out"
  shows "key_ge (key (out ! i)) (key (out ! j))"
  using assms by (simp add: sort_values_desc_def sorted_wrt_iff_nth_less)

lemma key_ge_None: "key_ge None b \<longleftrightarrow> b = None"
  by (cases b) simp_all

lemma argsort_ok_stable: "argsort_ok stable_argsort"
  unfolding argsort_ok_def stable_argsort_def
  by (simp add: sorted_sort_key)

lemma argsort_ok_reversing: "argsort_ok reversing_argsort"
  unfolding argsort_ok_def
proof (intro allI conjI)
  fix ks :: "real list"
  show "mset (reversing_argsort ks) = mset [0..<length ks]"
    by (simp add: reversing_argsort_def)
  let ?L = "sort_key (\<lambda>i. - (ks ! i)) [0..<length ks]"
  have "sorted (map (\<lambda>i. - (ks ! i)) ?L)" by (rule sorted_sort_key)
  then have "sorted_wrt (\<lambda>i j. ks ! j \<le> ks ! i) ?L"
    by (simp add: sorted_map)
  then have "sorted_wrt (\<lambda>i j. ks ! i \<le> ks ! j) (rev ?L)"
    by (simp add: sorted_wrt_rev)
  then show "sorted (map (\<lambda>i. ks ! i) (reversing_argsort ks))"
    by (simp add: reversing_argsort_def sorted_map)
qed

lemma argsort_positions:
  assumes "argsort_ok argsort"
  shows "set (argsort ks) = {0..<length ks}"
proof -
  from assms have "mset (argsort ks) = mset [0..<length ks]" by (simp add: argsort_ok_def)
  then have "set (argsort ks) = set [0..<length ks]" by (rule mset_eq_setD)
  then show ?thesis by simp
qed

lemma take_positions:
  assumes "mset perm = mset [0..<length xs]"
  shows "mset (map (\<lambda>i. xs ! i) perm) = mset xs"
proof -
  have "mset (map (\<lambda>i. xs ! i) perm) = image_mset (\<lambda>i. xs ! i) (mset perm)" by simp
  also have "\<dots> = image_mset (\<lambda>i. xs ! i) (mset [0..<length xs])" by (simp only: assms)
  also have "\<dots> = mset (map (\<lambda>i. xs ! i) [0..<length xs])" by simp
  also have "\<dots> = mset xs" by (simp only: map_nth)
  finally show ?thesis .
qed

lemma take_filter_positions:
  "map (\<lambda>i. rows ! i) (filter (\<lambda>i. Q (rows ! i)) [0..<length rows]) = filter Q rows"
proof -
  have "filter Q (map (\<lambda>i. rows ! i) [0..<length rows])
        = map (\<lambda>i. rows ! i) (filter (Q \<circ> (\<lambda>i. rows ! i)) [0..<length rows])"
    by (rule filter_map)
  then show ?thesis by (simp add: map_nth comp_def)
qed

text \<open>The frame that \<^const>\<open>sort_values\<close> returns, in terms of the rows with a key and the
  rows without one.\<close>

lemma sort_values_rows:
  assumes "argsort_ok argsort"
  shows "sort_values argsort key rows =
           rev (map (\<lambda>j. rev (filter (\<lambda>r. key r \<noteq> None) rows) ! j)
                    (argsort (map (\<lambda>r. the (key r)) (rev (filter (\<lambda>r. key r \<noteq> None) rows)))))
           @ filter (\<lambda>r. key r = None) rows"
proof -
  let ?items = "map key rows"
  let ?n = "length rows"
  let ?pres = "filter (\<lambda>r. key r \<noteq> None) rows"
  let ?nn = "non_nan_idx ?items"
  have at: "\<forall>i\<in>set [0..<?n]. ?items ! i = key (rows ! i)" by simp
  have f1: "filter (\<lambda>i. ?items ! i \<noteq> None) [0..<?n] = filter (\<lambda>i. key (rows ! i) \<noteq> None) [0..<?n]"
    using at by (intro filter_cong refl) (simp only:)
  have f2: "filter (\<lambda>i. ?items ! i = None) [0..<?n] = filter (\<lambda>i. key (rows ! i) = None) [0..<?n]"
    using at by (intro filter_cong refl) (simp only:)
  have nn: "?nn = rev (filter (\<lambda>i. key (rows ! i) \<noteq> None) [0..<?n])"
    by (simp only: non_nan_idx_def f1 length_map)
  have rnn: "map (\<lambda>i. rows ! i) ?nn = rev ?pres"
    unfolding nn
    by (simp only: rev_map [symmetric] take_filter_positions [of rows "\<lambda>r. key r \<noteq> None"])
  have range: "\<forall>i\<in>set ?nn. i < ?n \<and> key (rows ! i) \<noteq> None"
    unfolding nn by auto
  have len: "length ?nn = length ?pres"
    using rnn by (metis length_map length_rev)
  have "List.map_filter (\<lambda>i. ?items ! i) ?nn = map (the \<circ> (\<lambda>i. ?items ! i)) ?nn"
  proof -
    have "filter (\<lambda>i. ?items ! i \<noteq> None) ?nn = ?nn"
      using range by (intro filter_True) simp
    then show ?thesis by (simp add: map_filter_def)
  qed
  also have "\<dots> = map (\<lambda>i. the (key (rows ! i))) ?nn"
    using range by (intro map_cong) simp_all
  also have "\<dots> = map (\<lambda>r. the (key r)) (map (\<lambda>i. rows ! i) ?nn)"
    by (simp add: comp_def)
  also have "\<dots> = map (\<lambda>r. the (key r)) (rev ?pres)"
    by (simp only: rnn)
  finally have vals: "List.map_filter (\<lambda>i. ?items ! i) ?nn = map (\<lambda>r. the (key r)) (rev ?pres)" .
  let ?perm = "argsort (map (\<lambda>r. the (key r)) (rev ?pres))"
  have pr: "\<forall>j\<in>set ?perm. j < length ?nn"
    using argsort_positions [OF assms, of "map (\<lambda>r. the (key r)) (rev ?pres)"] len by simp
  have taken: "map (\<lambda>i. rows ! i) (map (\<lambda>j. ?nn ! j) ?perm) = map (\<lambda>j. rev ?pres ! j) ?perm"
  proof -
    have "map (\<lambda>j. rows ! (?nn ! j)) ?perm = map (\<lambda>j. rev ?pres ! j) ?perm"
    proof (rule map_cong [OF refl])
      fix j assume "j \<in> set ?perm"
      with pr have j: "j < length ?nn" by blast
      then have "rows ! (?nn ! j) = map (\<lambda>i. rows ! i) ?nn ! j" by simp
      then show "rows ! (?nn ! j) = rev ?pres ! j" by (simp only: rnn)
    qed
    then show ?thesis by (simp add: comp_def)
  qed
  have "map (\<lambda>i. rows ! i) (rev (map (\<lambda>j. ?nn ! j) ?perm))
      = rev (map (\<lambda>i. rows ! i) (map (\<lambda>j. ?nn ! j) ?perm))"
    by (rule rev_map [symmetric])
  also have "\<dots> = rev (map (\<lambda>j. rev ?pres ! j) ?perm)"
    by (simp only: taken)
  finally have first: "map (\<lambda>i. rows ! i) (rev (map (\<lambda>j. ?nn ! j) ?perm))
      = rev (map (\<lambda>j. rev ?pres ! j) ?perm)" .
  have second: "map (\<lambda>i. rows ! i) (filter (\<lambda>i. ?items ! i = None) [0..<?n])
      = filter (\<lambda>r. key r = None) rows"
    unfolding f2 by (rule take_filter_positions [of rows "\<lambda>r. key r = None"])
  have "sort_values argsort key rows
      = map (\<lambda>i. rows ! i) (rev (map (\<lambda>j. ?nn ! j) ?perm))
        @ map (\<lambda>i. rows ! i) (filter (\<lambda>i. ?items ! i = None) [0..<?n])"
    by (simp add: sort_values_def nargsort_def Let_def vals)
  then show ?thesis by (simp only: first second)
qed


lemma sort_values_sorted:
  assumes "argsort_ok argsort"
  shows "sort_values_desc key rows (sort_values argsort key rows)"
proof -
  let ?pres = "filter (\<lambda>r. key r \<noteq> None) rows"
  let ?abs = "filter (\<lambda>r. key r = None) rows"
  let ?R = "rev ?pres"
  let ?vals = "map (\<lambda>r. the (key r)) ?R"
  let ?perm = "argsort ?vals"
  let ?taken = "map (\<lambda>j. ?R ! j) ?perm"
  have out: "sort_values argsort key rows = rev ?taken @ ?abs"
    by (rule sort_values_rows [OF assms])
  have pm: "mset ?perm = mset [0..<length ?R]"
    using assms by (simp add: argsort_ok_def)
  have ps: "sorted (map (\<lambda>i. ?vals ! i) ?perm)"
    using assms by (simp add: argsort_ok_def)
  have range: "\<forall>j\<in>set ?perm. j < length ?R"
    using argsort_positions [OF assms, of ?vals] by simp
  have present: "\<forall>j<length ?R. key (?R ! j) = Some (?vals ! j)"
  proof (intro allI impI)
    fix j assume j: "j < length ?R"
    then have "?R ! j \<in> set ?R" by (rule nth_mem)
    then have "key (?R ! j) \<noteq> None" by simp
    with j show "key (?R ! j) = Some (?vals ! j)" by simp
  qed
  have m1: "mset ?taken = mset ?R" by (rule take_positions [OF pm])
  have "mset ?pres + mset ?abs = mset rows" by (induction rows) simp_all
  with m1 have m: "mset (rev ?taken @ ?abs) = mset rows" by simp
  have "sorted_wrt (\<lambda>i j. ?vals ! i \<le> ?vals ! j) ?perm"
    using ps by (simp only: sorted_map)
  then have "sorted_wrt (\<lambda>i j. key_ge (key (?R ! j)) (key (?R ! i))) ?perm"
  proof (rule sorted_wrt_mono_rel [rotated])
    fix i j
    assume i: "i \<in> set ?perm" and j: "j \<in> set ?perm" and le: "?vals ! i \<le> ?vals ! j"
    from i j range have "i < length ?R" "j < length ?R" by blast+
    with present have "key (?R ! i) = Some (?vals ! i)" "key (?R ! j) = Some (?vals ! j)"
      by blast+
    with le show "key_ge (key (?R ! j)) (key (?R ! i))" by simp
  qed
  then have "sorted_wrt (\<lambda>a b. key_ge (key b) (key a)) ?taken"
    by (simp only: sorted_wrt_map)
  then have s1: "sorted_wrt (\<lambda>a b. key_ge (key a) (key b)) (rev ?taken)"
    by (simp only: sorted_wrt_rev)
  have s2: "sorted_wrt (\<lambda>a b. key_ge (key a) (key b)) ?abs"
    by (induction rows) simp_all
  have cross: "\<forall>a\<in>set (rev ?taken). \<forall>b\<in>set ?abs. key_ge (key a) (key b)"
    by simp
  have s: "sorted_wrt (\<lambda>a b. key_ge (key a) (key b)) (rev ?taken @ ?abs)"
    using s1 s2 cross by (simp only: sorted_wrt_append)
  have nn: "\<forall>a\<in>set ?taken. key a \<noteq> None"
  proof
    fix a assume "a \<in> set ?taken"
    then obtain j where j: "j \<in> set ?perm" "a = ?R ! j" by auto
    from j(1) range have "j < length ?R" by blast
    then have "?R ! j \<in> set ?R" by (rule nth_mem)
    with j(2) have "a \<in> set ?R" by (simp only:)
    then show "key a \<noteq> None" by simp
  qed
  have fe: "filter (\<lambda>r. key r = None) (rev ?taken) = []"
  proof (rule iffD2 [OF filter_empty_conv], rule ballI)
    fix a assume "a \<in> set (rev ?taken)"
    then have "a \<in> set ?taken" by (simp only: set_rev)
    with nn show "\<not> key a = None" by (rule bspec)
  qed
  have "filter (\<lambda>r. key r = None) (rev ?taken @ ?abs)
        = filter (\<lambda>r. key r = None) (rev ?taken) @ filter (\<lambda>r. key r = None) ?abs"
    by (rule filter_append)
  also have "\<dots> = ?abs" by (simp only: fe append_Nil filter_filter conj_absorb)
  finally have f: "filter (\<lambda>r. key r = None) (rev ?taken @ ?abs) = ?abs" .
  show ?thesis
    unfolding out sort_values_desc_def using m s f by (intro conjI)
qed

lemma filter_find_distinct:
  "distinct (map f xs) \<Longrightarrow>
   filter (\<lambda>x. f x = k) xs = (case find (\<lambda>x. f x = k) xs of None \<Rightarrow> [] | Some x \<Rightarrow> [x])"
proof (induction xs)
  case Nil
  show ?case by simp
next
  case (Cons a xs)
  show ?case
  proof (cases "f a = k")
    case True
    with Cons.prems have "k \<notin> f ` set xs" by auto
    then have "filter (\<lambda>x. f x = k) xs = []" by (auto simp: filter_empty_conv)
    with True show ?thesis by simp
  next
    case False
    with Cons show ?thesis by simp
  qed
qed

lemma find_distinct_self:
  "distinct (map f xs) \<Longrightarrow> x \<in> set xs \<Longrightarrow> find (\<lambda>y. f y = f x) xs = Some x"
proof (induction xs)
  case Nil
  then show ?case by simp
next
  case (Cons a xs)
  show ?case
  proof (cases "x = a")
    case True
    then show ?thesis by simp
  next
    case False
    with Cons.prems have x: "x \<in> set xs" by simp
    with Cons.prems have "f a \<noteq> f x" by auto
    with Cons x show ?thesis by simp
  qed
qed

lemma find_None_image: "find (\<lambda>x. f x = k) xs = None \<longleftrightarrow> k \<notin> f ` set xs"
  by (auto simp: find_None_iff)

lemma merge_rows_single:
  assumes "distinct (map s_planning_area temp_df)" "distinct (map c_planning_area context_df)"
    and "k \<in> set (map s_planning_area temp_df) \<union> set (map c_planning_area context_df)"
  shows "merge_rows k (filter (\<lambda>l. s_planning_area l = k) temp_df)
                      (filter (\<lambda>r. c_planning_area r = k) context_df)
           = [joined_row temp_df context_df k]"
proof -
  note fl = filter_find_distinct [OF assms(1), of k]
  note fr = filter_find_distinct [OF assms(2), of k]
  have "\<not> (find (\<lambda>l. s_planning_area l = k) temp_df = None \<and>
           find (\<lambda>r. c_planning_area r = k) context_df = None)"
    using assms(3) by (simp only: find_None_image) auto
  then show ?thesis
    unfolding fl fr
    by (cases "find (\<lambda>l. s_planning_area l = k) temp_df";
        cases "find (\<lambda>r. c_planning_area r = k) context_df")
       (simp_all add: merge_rows_def joined_row_def)
qed

lemma concat_map_single: "concat (map (\<lambda>k. [g k]) ks) = map g ks"
  by (induction ks) simp_all

lemma merge_outer_joined:
  assumes "distinct (map s_planning_area temp_df)" "distinct (map c_planning_area context_df)"
  shows "merge_outer temp_df context_df =
           map (joined_row temp_df context_df)
               (sort (remdups (map s_planning_area temp_df @ map c_planning_area context_df)))"
proof -
  let ?ks = "sort (remdups (map s_planning_area temp_df @ map c_planning_area context_df))"
  have "map (\<lambda>k. merge_rows k (filter (\<lambda>l. s_planning_area l = k) temp_df)
                                (filter (\<lambda>r. c_planning_area r = k) context_df)) ?ks
        = map (\<lambda>k. [joined_row temp_df context_df k]) ?ks"
  proof (rule map_cong [OF refl])
    fix k assume "k \<in> set ?ks"
    then have "k \<in> set (map s_planning_area temp_df) \<union> set (map c_planning_area context_df)"
      by simp
    then show "merge_rows k (filter (\<lambda>l. s_planning_area l = k) temp_df)
                            (filter (\<lambda>r. c_planning_area r = k) context_df)
               = [joined_row temp_df context_df k]"
      by (rule merge_rows_single [OF assms])
  qed
  then have "merge_outer temp_df context_df
               = concat (map (\<lambda>k. [joined_row temp_df context_df k]) ?ks)"
    unfolding merge_outer_def by (rule arg_cong)
  also have "\<dots> = map (joined_row temp_df context_df) ?ks"
    by (rule concat_map_single)
  finally show ?thesis .
qed

lemma context_only_joined:
  assumes "distinct (map c_planning_area context_df)"
  shows "map (\<lambda>r. \<lparr> planning_area = c_planning_area r, avg_temperature = None,
                   green_ratio = c_green_ratio r,
                   density_type = Some (c_density_type r) \<rparr>) context_df
         = map (joined_row [] context_df) (map c_planning_area context_df)"
proof -
  have "\<forall>r\<in>set context_df.
          find (\<lambda>y. c_planning_area y = c_planning_area r) context_df = Some r"
    using find_distinct_self [OF assms] by blast
  then show ?thesis by (simp add: joined_row_def)
qed

lemma unified_df_joined:
  assumes "distinct (map s_planning_area temp_df)" "distinct (map c_planning_area context_df)"
  shows "\<exists>ks. unified_df temp_df context_df = map (joined_row temp_df context_df) ks \<and>
              distinct ks \<and>
              set ks = set (map s_planning_area temp_df) \<union> set (map c_planning_area context_df)"
proof (cases "temp_df = []")
  case True
  have "unified_df temp_df context_df
          = map (joined_row temp_df context_df) (map c_planning_area context_df)"
    using True context_only_joined [OF assms(2)] by (simp add: unified_df_def)
  with True assms(2) show ?thesis by (intro exI [of _ "map c_planning_area context_df"]) simp
next
  case False
  let ?ks = "sort (remdups (map s_planning_area temp_df @ map c_planning_area context_df))"
  have "unified_df temp_df context_df = map (joined_row temp_df context_df) ?ks"
    using False merge_outer_joined [OF assms] by (simp add: unified_df_def)
  then show ?thesis by (intro exI [of _ ?ks]) simp
qed

lemma planning_area_joined: "map planning_area (map (joined_row t c) ks) = ks"
  by (induction ks) (simp_all add: joined_row_def)

text \<open>
  Claim C3, as the code has it. When there is context data and the area names are
  unique within each frame, the dataset has exactly one row for each name of either
  frame. A row takes its temperature from the temperature frame and its green ratio
  and density type from the context frame; an area of the context frame only has no
  temperature (missing, not zero), and an area of the temperature frame only has no
  green ratio and no density type: they are missing, no default is filled in.
  Without context data the result is \<^verbatim>\<open>pd.DataFrame()\<close>, whatever the temperatures are.
\<close>

theorem get_unified_dataset_outer_join:
  assumes "get_unified_dataset temp_df context_df out"
    and "distinct (map s_planning_area temp_df)"
    and "distinct (map c_planning_area context_df)"
  shows "(context_df = [] \<longrightarrow> out = EmptyFrame) \<and>
         (context_df \<noteq> [] \<longrightarrow>
            (\<exists>rs. out = Rows rs \<and>
               distinct (map planning_area rs) \<and>
               set (map planning_area rs) =
                 set (map s_planning_area temp_df) \<union> set (map c_planning_area context_df) \<and>
               (\<forall>r\<in>set rs.
                  avg_temperature r =
                    map_option avg_temp (find (\<lambda>l. s_planning_area l = planning_area r) temp_df) \<and>
                  green_ratio r =
                    Option.bind (find (\<lambda>x. c_planning_area x = planning_area r) context_df)
                      c_green_ratio \<and>
                  density_type r =
                    map_option c_density_type
                      (find (\<lambda>x. c_planning_area x = planning_area r) context_df))))"
proof (cases "context_df = []")
  case True
  with assms(1) show ?thesis by (simp add: get_unified_dataset_def)
next
  case False
  with assms(1) obtain rs where out: "out = Rows rs"
    and srt: "sort_values_desc avg_temperature (unified_df temp_df context_df) rs"
    by (cases out) (simp_all add: get_unified_dataset_def)
  obtain ks where u: "unified_df temp_df context_df = map (joined_row temp_df context_df) ks"
    and ks: "distinct ks"
      "set ks = set (map s_planning_area temp_df) \<union> set (map c_planning_area context_df)"
    using unified_df_joined [OF assms(2,3)] by blast
  have names: "map planning_area (unified_df temp_df context_df) = ks"
    unfolding u by (rule planning_area_joined)
  have d: "distinct (map planning_area rs)"
    using sort_values_desc_distinct [OF srt, of planning_area] names ks(1) by simp
  have "set rs = set (unified_df temp_df context_df)"
    by (rule sort_values_desc_set [OF srt])
  then have setrs: "set rs = joined_row temp_df context_df ` set ks"
    unfolding u by simp
  have "planning_area ` set rs = set (map planning_area (unified_df temp_df context_df))"
    using sort_values_desc_set [OF srt] by simp
  then have s: "set (map planning_area rs) =
      set (map s_planning_area temp_df) \<union> set (map c_planning_area context_df)"
    unfolding names ks(2) by simp
  have fields: "\<forall>r\<in>set rs.
      avg_temperature r =
        map_option avg_temp (find (\<lambda>l. s_planning_area l = planning_area r) temp_df) \<and>
      green_ratio r =
        Option.bind (find (\<lambda>x. c_planning_area x = planning_area r) context_df) c_green_ratio \<and>
      density_type r =
        map_option c_density_type (find (\<lambda>x. c_planning_area x = planning_area r) context_df)"
    unfolding setrs by (simp add: joined_row_def)
  from False out d s fields show ?thesis by blast
qed

theorem get_unified_dataset_outer_join_witness:
  "get_unified_dataset
     [\<lparr>s_planning_area = ''A'', avg_temp = 30.1, max_temp = 30.4, station_count = 2,
       stations = [Some ''S1'', Some ''S2'']\<rparr>]
     [\<lparr>c_planning_area = ''B'', c_green_ratio = Some 0.5, c_density_type = Mixed,
       green_count = 3, comm_count = 1, res_count = 1\<rparr>]
     (Rows [\<lparr>planning_area = ''A'', avg_temperature = Some 30.1, green_ratio = None,
              density_type = None\<rparr>,
            \<lparr>planning_area = ''B'', avg_temperature = None, green_ratio = Some 0.5,
              density_type = Some Mixed\<rparr>]) \<and>
   set (map planning_area
          [\<lparr>planning_area = ''A'', avg_temperature = Some 30.1, green_ratio = None,
             density_type = None\<rparr>,
           \<lparr>planning_area = ''B'', avg_temperature = None, green_ratio = Some 0.5,
             density_type = Some Mixed\<rparr>]) = {''A'', ''B''}"
proof -
  let ?t = "[\<lparr>s_planning_area = ''A'', avg_temp = 30.1, max_temp = 30.4, station_count = 2,
       stations = [Some ''S1'', Some ''S2'']\<rparr>]"
  let ?c = "[\<lparr>c_planning_area = ''B'', c_green_ratio = Some 0.5, c_density_type = Mixed,
       green_count = 3, comm_count = 1, res_count = 1\<rparr>]"
  let ?rs = "[\<lparr>planning_area = ''A'', avg_temperature = Some 30.1, green_ratio = None,
              density_type = None\<rparr>,
            \<lparr>planning_area = ''B'', avg_temperature = None, green_ratio = Some 0.5,
              density_type = Some Mixed\<rparr>]"
  have u: "unified_df ?t ?c = ?rs"
    by (simp add: unified_df_def merge_outer_def merge_rows_def)
  have h1: "get_unified_dataset ?t ?c (Rows ?rs)"
    unfolding get_unified_dataset_def u by (simp add: sort_values_desc_def)
  have h2: "distinct (map s_planning_area ?t)" by simp
  have h3: "distinct (map c_planning_area ?c)" by simp
  show ?thesis
    using get_unified_dataset_outer_join [OF h1 h2 h3] h1 by simp
qed

text \<open>
  Against claim C3 as stated: the area \<open>A\<close> is in the temperature frame only, and its
  row has a missing green ratio and a missing density type, not 0.0 and the unknown
  class; and with an empty context frame the area \<open>A\<close> has no row at all.
\<close>

theorem get_unified_dataset_defaults_counterexample:
  "get_unified_dataset
     [\<lparr>s_planning_area = ''A'', avg_temp = 30.1, max_temp = 30.4, station_count = 2,
       stations = [Some ''S1'', Some ''S2'']\<rparr>]
     [\<lparr>c_planning_area = ''B'', c_green_ratio = Some 0.5, c_density_type = Mixed,
       green_count = 3, comm_count = 1, res_count = 1\<rparr>]
     (Rows [\<lparr>planning_area = ''A'', avg_temperature = Some 30.1, green_ratio = None,
              density_type = None\<rparr>,
            \<lparr>planning_area = ''B'', avg_temperature = None, green_ratio = Some 0.5,
              density_type = Some Mixed\<rparr>]) \<and>
   green_ratio \<lparr>planning_area = ''A'', avg_temperature = Some 30.1, green_ratio = None,
                density_type = None\<rparr> \<noteq> Some 0 \<and>
   density_type \<lparr>planning_area = ''A'', avg_temperature = Some 30.1, green_ratio = None,
                  density_type = None\<rparr> \<noteq> Some Unknown_Low_Density \<and>
   get_unified_dataset
     [\<lparr>s_planning_area = ''A'', avg_temp = 30.1, max_temp = 30.4, station_count = 2,
       stations = [Some ''S1'', Some ''S2'']\<rparr>]
     [] EmptyFrame"
proof -
  let ?t = "[\<lparr>s_planning_area = ''A'', avg_temp = 30.1, max_temp = 30.4, station_count = 2,
       stations = [Some ''S1'', Some ''S2'']\<rparr>]"
  let ?c = "[\<lparr>c_planning_area = ''B'', c_green_ratio = Some 0.5, c_density_type = Mixed,
       green_count = 3, comm_count = 1, res_count = 1\<rparr>]"
  let ?rs = "[\<lparr>planning_area = ''A'', avg_temperature = Some 30.1, green_ratio = None,
              density_type = None\<rparr>,
            \<lparr>planning_area = ''B'', avg_temperature = None, green_ratio = Some 0.5,
              density_type = Some Mixed\<rparr>]"
  have u: "unified_df ?t ?c = ?rs"
    by (simp add: unified_df_def merge_outer_def merge_rows_def)
  have h1: "get_unified_dataset ?t ?c (Rows ?rs)"
    unfolding get_unified_dataset_def u by (simp add: sort_values_desc_def)
  have h2: "get_unified_dataset ?t [] EmptyFrame"
    by (simp add: get_unified_dataset_def)
  from h1 h2 show ?thesis by simp
qed

text \<open>Whatever \<open>argsort\<close> does with equal keys, the dataset that the function returns is
  one of those of the relation.\<close>

lemma get_unified_dataset_by_returns:
  assumes "argsort_ok argsort"
  shows "get_unified_dataset temp_df context_df (get_unified_dataset_by argsort temp_df context_df)"
  using sort_values_sorted [OF assms, of avg_temperature "unified_df temp_df context_df"]
  by (simp add: get_unified_dataset_def get_unified_dataset_by_def)

text \<open>
  Claim C4, as the code has it. For every \<open>argsort\<close> that keeps NumPy's promise, the
  dataset that \<^verbatim>\<open>get_unified_dataset\<close> returns holds the rows of the merged frame, has
  the rows without temperature behind all rows with one, has the temperatures in
  descending order, and keeps the rows without temperature in the order of the merged
  frame. The order of rows with equal temperatures is left open: the program does not
  ask for a stable sort.
\<close>

theorem get_unified_dataset_sorted:
  assumes "argsort_ok argsort" and "context_df \<noteq> []"
  shows "\<exists>rs. get_unified_dataset_by argsort temp_df context_df = Rows rs \<and>
           mset rs = mset (unified_df temp_df context_df) \<and>
           (\<forall>i j. i < j \<and> j < length rs \<longrightarrow>
              (avg_temperature (rs ! i) = None \<longrightarrow> avg_temperature (rs ! j) = None) \<and>
              (\<forall>x y. avg_temperature (rs ! i) = Some x \<and> avg_temperature (rs ! j) = Some y
                       \<longrightarrow> y \<le> x)) \<and>
           filter (\<lambda>r. avg_temperature r = None) rs =
             filter (\<lambda>r. avg_temperature r = None) (unified_df temp_df context_df)"
proof -
  let ?rs = "sort_values argsort avg_temperature (unified_df temp_df context_df)"
  have ret: "get_unified_dataset_by argsort temp_df context_df = Rows ?rs"
    using assms(2) by (simp add: get_unified_dataset_by_def)
  have srt: "sort_values_desc avg_temperature (unified_df temp_df context_df) ?rs"
    by (rule sort_values_sorted [OF assms(1)])
  have order: "\<forall>i j. i < j \<and> j < length ?rs \<longrightarrow>
            (avg_temperature (?rs ! i) = None \<longrightarrow> avg_temperature (?rs ! j) = None) \<and>
            (\<forall>x y. avg_temperature (?rs ! i) = Some x \<and> avg_temperature (?rs ! j) = Some y
                     \<longrightarrow> y \<le> x)"
  proof (intro allI impI)
    fix i j
    assume ij: "i < j \<and> j < length ?rs"
    then have ge: "key_ge (avg_temperature (?rs ! i)) (avg_temperature (?rs ! j))"
      using sort_values_desc_nth [OF srt] by blast
    show "(avg_temperature (?rs ! i) = None \<longrightarrow> avg_temperature (?rs ! j) = None) \<and>
            (\<forall>x y. avg_temperature (?rs ! i) = Some x \<and> avg_temperature (?rs ! j) = Some y
                     \<longrightarrow> y \<le> x)"
      using ge by (auto simp: key_ge_None)
  qed
  from srt have rest: "filter (\<lambda>r. avg_temperature r = None) ?rs =
           filter (\<lambda>r. avg_temperature r = None) (unified_df temp_df context_df)"
    "mset ?rs = mset (unified_df temp_df context_df)"
    by (simp_all add: sort_values_desc_def)
  from ret order rest show ?thesis by blast
qed

text \<open>The equations that evaluate \<^const>\<open>sort_values\<close> on a given frame.\<close>

lemmas sv_eval = sort_values_def nargsort_def non_nan_idx_def map_filter_def Let_def

theorem get_unified_dataset_sorted_witness:
  "get_unified_dataset_by stable_argsort
     [\<lparr>s_planning_area = ''A'', avg_temp = 29.8, max_temp = 30, station_count = 1,
       stations = [Some ''S1'']\<rparr>,
      \<lparr>s_planning_area = ''C'', avg_temp = 31.2, max_temp = 31.2, station_count = 1,
       stations = [Some ''S2'']\<rparr>]
     [\<lparr>c_planning_area = ''A'', c_green_ratio = Some 0.5, c_density_type = Mixed,
       green_count = 3, comm_count = 1, res_count = 1\<rparr>,
      \<lparr>c_planning_area = ''B'', c_green_ratio = Some 1, c_density_type = Residential,
       green_count = 6, comm_count = 0, res_count = 2\<rparr>,
      \<lparr>c_planning_area = ''C'', c_green_ratio = Some 0, c_density_type = Commercial,
       green_count = 0, comm_count = 4, res_count = 0\<rparr>]
   = Rows [\<lparr>planning_area = ''C'', avg_temperature = Some 31.2, green_ratio = Some 0,
              density_type = Some Commercial\<rparr>,
            \<lparr>planning_area = ''A'', avg_temperature = Some 29.8, green_ratio = Some 0.5,
              density_type = Some Mixed\<rparr>,
            \<lparr>planning_area = ''B'', avg_temperature = None, green_ratio = Some 1,
              density_type = Some Residential\<rparr>] \<and>
   (29.8::real) \<le> 31.2"
proof -
  let ?t = "[\<lparr>s_planning_area = ''A'', avg_temp = 29.8, max_temp = 30, station_count = 1,
       stations = [Some ''S1'']\<rparr>,
      \<lparr>s_planning_area = ''C'', avg_temp = 31.2, max_temp = 31.2, station_count = 1,
       stations = [Some ''S2'']\<rparr>]"
  let ?c = "[\<lparr>c_planning_area = ''A'', c_green_ratio = Some 0.5, c_density_type = Mixed,
       green_count = 3, comm_count = 1, res_count = 1\<rparr>,
      \<lparr>c_planning_area = ''B'', c_green_ratio = Some 1, c_density_type = Residential,
       green_count = 6, comm_count = 0, res_count = 2\<rparr>,
      \<lparr>c_planning_area = ''C'', c_green_ratio = Some 0, c_density_type = Commercial,
       green_count = 0, comm_count = 4, res_count = 0\<rparr>]"
  let ?a = "\<lparr>planning_area = ''A'', avg_temperature = Some 29.8, green_ratio = Some 0.5,
              density_type = Some Mixed\<rparr>"
  let ?b = "\<lparr>planning_area = ''B'', avg_temperature = None, green_ratio = Some 1,
              density_type = Some Residential\<rparr>"
  let ?cc = "\<lparr>planning_area = ''C'', avg_temperature = Some 31.2, green_ratio = Some 0,
              density_type = Some Commercial\<rparr>"
  have u: "unified_df ?t ?c = [?a, ?b, ?cc]"
    by (simp add: unified_df_def merge_outer_def merge_rows_def)
  have ne: "?c \<noteq> []" by simp
  have h: "get_unified_dataset_by stable_argsort ?t ?c = Rows [?cc, ?a, ?b]"
    unfolding get_unified_dataset_by_def u
    by (simp add: sv_eval stable_argsort_def del: not_None_eq)
  from get_unified_dataset_sorted [OF argsort_ok_stable ne, of ?t]
  obtain rs where rs: "get_unified_dataset_by stable_argsort ?t ?c = Rows rs"
    and ord: "\<forall>i j. i < j \<and> j < length rs \<longrightarrow>
              (avg_temperature (rs ! i) = None \<longrightarrow> avg_temperature (rs ! j) = None) \<and>
              (\<forall>x y. avg_temperature (rs ! i) = Some x \<and> avg_temperature (rs ! j) = Some y
                       \<longrightarrow> y \<le> x)"
    by blast
  from rs h have eq: "rs = [?cc, ?a, ?b]" by simp
  have "(0::nat) < 1 \<and> 1 < length rs" unfolding eq by simp
  with ord have "\<forall>x y. avg_temperature (rs ! 0) = Some x \<and> avg_temperature (rs ! 1) = Some y
                       \<longrightarrow> y \<le> x" by blast
  then have "(29.8::real) \<le> 31.2" unfolding eq by simp
  with h show ?thesis by (rule conjI)
qed

text \<open>
  Against claim C4 as stated: \<open>A\<close> and \<open>B\<close> have the same temperature, and so have \<open>C\<close>
  and \<open>D\<close>; they are merged in the order \<open>A\<close>, \<open>B\<close>, \<open>C\<close>, \<open>D\<close>. With an \<open>argsort\<close>
  that keeps NumPy's promise and answers 3, 2, 1, 0 for the keys 31, 31, 30, 30, the
  dataset is \<open>D\<close>, \<open>C\<close>, \<open>B\<close>, \<open>A\<close>: in both pairs the rows have left their join order.
\<close>

theorem get_unified_dataset_stable_counterexample:
  "argsort_ok reversing_argsort \<and>
   unified_df
     [\<lparr>s_planning_area = ''A'', avg_temp = 30, max_temp = 30, station_count = 1,
       stations = [Some ''S1'']\<rparr>,
      \<lparr>s_planning_area = ''B'', avg_temp = 30, max_temp = 30, station_count = 1,
       stations = [Some ''S2'']\<rparr>,
      \<lparr>s_planning_area = ''C'', avg_temp = 31, max_temp = 31, station_count = 1,
       stations = [Some ''S3'']\<rparr>,
      \<lparr>s_planning_area = ''D'', avg_temp = 31, max_temp = 31, station_count = 1,
       stations = [Some ''S4'']\<rparr>]
     [\<lparr>c_planning_area = ''A'', c_green_ratio = Some 0.5, c_density_type = Mixed,
       green_count = 1, comm_count = 1, res_count = 1\<rparr>,
      \<lparr>c_planning_area = ''B'', c_green_ratio = Some 0.5, c_density_type = Mixed,
       green_count = 1, comm_count = 1, res_count = 1\<rparr>,
      \<lparr>c_planning_area = ''C'', c_green_ratio = Some 0.5, c_density_type = Mixed,
       green_count = 1, comm_count = 1, res_count = 1\<rparr>,
      \<lparr>c_planning_area = ''D'', c_green_ratio = Some 0.5, c_density_type = Mixed,
       green_count = 1, comm_count = 1, res_count = 1\<rparr>]
   = [\<lparr>planning_area = ''A'', avg_temperature = Some 30, green_ratio = Some 0.5,
        density_type = Some Mixed\<rparr>,
      \<lparr>planning_area = ''B'', avg_temperature = Some 30, green_ratio = Some 0.5,
        density_type = Some Mixed\<rparr>,
      \<lparr>planning_area = ''C'', avg_temperature = Some 31, green_ratio = Some 0.5,
        density_type = Some Mixed\<rparr>,
      \<lparr>planning_area = ''D'', avg_temperature = Some 31, green_ratio = Some 0.5,
        density_type = Some Mixed\<rparr>] \<and>
   get_unified_dataset_by reversing_argsort
     [\<lparr>s_planning_area = ''A'', avg_temp = 30, max_temp = 30, station_count = 1,
       stations = [Some ''S1'']\<rparr>,
      \<lparr>s_planning_area = ''B'', avg_temp = 30, max_temp = 30, station_count = 1,
       stations = [Some ''S2'']\<rparr>,
      \<lparr>s_planning_area = ''C'', avg_temp = 31, max_temp = 31, station_count = 1,
       stations = [Some ''S3'']\<rparr>,
      \<lparr>s_planning_area = ''D'', avg_temp = 31, max_temp = 31, station_count = 1,
       stations = [Some ''S4'']\<rparr>]
     [\<lparr>c_planning_area = ''A'', c_green_ratio = Some 0.5, c_density_type = Mixed,
       green_count = 1, comm_count = 1, res_count = 1\<rparr>,
      \<lparr>c_planning_area = ''B'', c_green_ratio = Some 0.5, c_density_type = Mixed,
       green_count = 1, comm_count = 1, res_count = 1\<rparr>,
      \<lparr>c_planning_area = ''C'', c_green_ratio = Some 0.5, c_density_type = Mixed,
       green_count = 1, comm_count = 1, res_count = 1\<rparr>,
      \<lparr>c_planning_area = ''D'', c_green_ratio = Some 0.5, c_density_type = Mixed,
       green_count = 1, comm_count = 1, res_count = 1\<rparr>]
   = Rows [\<lparr>planning_area = ''D'', avg_temperature = Some 31, green_ratio = Some 0.5,
             density_type = Some Mixed\<rparr>,
           \<lparr>planning_area = ''C'', avg_temperature = Some 31, green_ratio = Some 0.5,
             density_type = Some Mixed\<rparr>,
           \<lparr>planning_area = ''B'', avg_temperature = Some 30, green_ratio = Some 0.5,
             density_type = Some Mixed\<rparr>,
           \<lparr>planning_area = ''A'', avg_temperature = Some 30, green_ratio = Some 0.5,
             density_type = Some Mixed\<rparr>]"
proof -
  let ?t = "[\<lparr>s_planning_area = ''A'', avg_temp = 30, max_temp = 30, station_count = 1,
       stations = [Some ''S1'']\<rparr>,
      \<lparr>s_planning_area = ''B'', avg_temp = 30, max_temp = 30, station_count = 1,
       stations = [Some ''S2'']\<rparr>,
      \<lparr>s_planning_area = ''C'', avg_temp = 31, max_temp = 31, station_count = 1,
       stations = [Some ''S3'']\<rparr>,
      \<lparr>s_planning_area = ''D'', avg_temp = 31, max_temp = 31, station_count = 1,
       stations = [Some ''S4'']\<rparr>]"
  let ?c = "[\<lparr>c_planning_area = ''A'', c_green_ratio = Some 0.5, c_density_type = Mixed,
       green_count = 1, comm_count = 1, res_count = 1\<rparr>,
      \<lparr>c_planning_area = ''B'', c_green_ratio = Some 0.5, c_density_type = Mixed,
       green_count = 1, comm_count = 1, res_count = 1\<rparr>,
      \<lparr>c_planning_area = ''C'', c_green_ratio = Some 0.5, c_density_type = Mixed,
       green_count = 1, comm_count = 1, res_count = 1\<rparr>,
      \<lparr>c_planning_area = ''D'', c_green_ratio = Some 0.5, c_density_type = Mixed,
       green_count = 1, comm_count = 1, res_count = 1\<rparr>]"
  let ?a = "\<lparr>planning_area = ''A'', avg_temperature = Some 30, green_ratio = Some 0.5,
        density_type = Some Mixed\<rparr>"
  let ?b = "\<lparr>planning_area = ''B'', avg_temperature = Some 30, green_ratio = Some 0.5,
        density_type = Some Mixed\<rparr>"
  let ?cc = "\<lparr>planning_area = ''C'', avg_temperature = Some 31, green_ratio = Some 0.5,
        density_type = Some Mixed\<rparr>"
  let ?d = "\<lparr>planning_area = ''D'', avg_temperature = Some 31, green_ratio = Some 0.5,
        density_type = Some Mixed\<rparr>"
  have u: "unified_df ?t ?c = [?a, ?b, ?cc, ?d]"
    by (simp add: unified_df_def merge_outer_def merge_rows_def)
  have h: "get_unified_dataset_by reversing_argsort ?t ?c = Rows [?d, ?cc, ?b, ?a]"
    unfolding get_unified_dataset_by_def u
    by (simp add: sv_eval reversing_argsort_def)
  from argsort_ok_reversing u h show ?thesis by (intro conjI)
qed

section \<open>Properties of the context features\<close>







lemma determine_density_zero: "c + r = 0 \<Longrightarrow> determine_density c r = Unknown_Low_Density"
  by (simp add: determine_density_def)

lemma determine_density_ratio:
  assumes "c + r \<noteq> 0"
  shows "determine_density c r =
           (if real c / real (c + r) > 0.6 then Commercial
            else if real c / real (c + r) < 0.4 then Residential else Mixed)"
  using assms by (simp add: determine_density_def Let_def)

lemma get_context_features_density:
  "\<forall>row\<in>set (get_context_features fl all_areas gs cs rs).
     c_density_type row = determine_density (comm_count row) (res_count row)"
  by (auto simp: get_context_features_def Let_def)

text \<open>
  Claim C7. The density type depends on the two counts only. It is unknown when both
  are zero; otherwise, with the ratio of the commercial count to the total, it is
  commercial above 0.6, residential below 0.4 and mixed in between, the two
  thresholds included. The counts (0,0), (7,3), (3,7) and (5,5) give unknown,
  commercial, residential and mixed; (2,3) and (3,2), with the ratios 0.4 and 0.6, give
  mixed. Every row of the context frame carries the density type of its own counts.
\<close>

theorem determine_density_classes:
  "(c + r = 0 \<longrightarrow> determine_density c r = Unknown_Low_Density) \<and>
   (c + r \<noteq> 0 \<and> real c / real (c + r) > 0.6 \<longrightarrow> determine_density c r = Commercial) \<and>
   (c + r \<noteq> 0 \<and> real c / real (c + r) < 0.4 \<longrightarrow> determine_density c r = Residential) \<and>
   (c + r \<noteq> 0 \<and> 0.4 \<le> real c / real (c + r) \<and> real c / real (c + r) \<le> 0.6
      \<longrightarrow> determine_density c r = Mixed) \<and>
   determine_density 0 0 = Unknown_Low_Density \<and>
   determine_density 7 3 = Commercial \<and>
   determine_density 3 7 = Residential \<and>
   determine_density 5 5 = Mixed \<and>
   determine_density 2 3 = Mixed \<and>
   determine_density 3 2 = Mixed \<and>
   (\<forall>row\<in>set (get_context_features fl all_areas gs cs rs).
      c_density_type row = determine_density (comm_count row) (res_count row))"
proof -
  have ex: "determine_density 0 0 = Unknown_Low_Density" "determine_density 7 3 = Commercial"
    "determine_density 3 7 = Residential" "determine_density 5 5 = Mixed"
    "determine_density 2 3 = Mixed" "determine_density 3 2 = Mixed"
    by (simp_all add: determine_density_def Let_def)
  show ?thesis
    using ex get_context_features_density [of fl all_areas gs cs rs]
    by (auto simp: determine_density_zero determine_density_ratio simp del: add_is_0)
qed

theorem determine_density_classes_witness:
  "determine_density 9 1 = Commercial \<and> determine_density 1 9 = Residential \<and>
   determine_density 4 4 = Mixed \<and>
   c_density_type
     (hd (get_context_features exact_ops [''BEDOK''] Map.empty [''BEDOK'' \<mapsto> 9] [''BEDOK'' \<mapsto> 1]))
     = Commercial"
proof -
  have a: "(9::nat) + 1 \<noteq> 0 \<and> real 9 / real (9 + 1) > 0.6" by simp
  have b: "(1::nat) + 9 \<noteq> 0 \<and> real 1 / real (1 + 9) < 0.4" by simp
  have c: "(4::nat) + 4 \<noteq> 0 \<and> 0.4 \<le> real 4 / real (4 + 4) \<and> real 4 / real (4 + 4) \<le> 0.6"
    by simp
  have d: "get_context_features exact_ops [''BEDOK''] Map.empty [''BEDOK'' \<mapsto> 9] [''BEDOK'' \<mapsto> 1]
     = [\<lparr>c_planning_area = ''BEDOK'', c_green_ratio = Some 0,
          c_density_type = determine_density 9 1,
          green_count = 0, comm_count = 9, res_count = 1\<rparr>]"
    by (simp add: get_context_features_def count_of_def)
  show ?thesis
    using determine_density_classes [of 9 1 exact_ops "[''BEDOK'']" Map.empty "[''BEDOK'' \<mapsto> 9]" "[''BEDOK'' \<mapsto> 1]"]
      determine_density_classes [of 1 9 exact_ops "[]" Map.empty Map.empty Map.empty]
      determine_density_classes [of 4 4 exact_ops "[]" Map.empty Map.empty Map.empty] a b c
    unfolding d by simp
qed






section \<open>Properties of the temperature aggregation\<close>
















end
